theory Spec2Isabelle
  imports Main
begin

text \<open>
  A model of the authentication core of the API: the user roles and their permission
  predicates (api/models.py), the issue of token pairs and the email engine
  (api/auth/auth_engines), and the lazy attributes that resolve the identity of a request
  (api/middleware.py). Exceptions are values of the type \<open>error\<close>; the session, the
  database behind it and the log are a state that is passed along; the libraries are
  parameters.
\<close>

section \<open>Exceptions\<close>

text \<open>
  The exception classes of PyJWT that \<open>jwt.decode\<close> can raise. In Python
  \<open>InvalidSignatureError\<close> is a subclass of \<open>DecodeError\<close>; every class but
  \<open>PyJWTError\<close> is a subclass of \<open>InvalidTokenError\<close>.
\<close>

datatype jwt_exception =
    PyJWTError
  | InvalidTokenError
  | DecodeError
  | InvalidSignatureError
  | ExpiredSignatureError
  | InvalidAudienceError
  | InvalidIssuerError
  | InvalidIssuedAtError
  | ImmatureSignatureError
  | InvalidKeyError
  | InvalidAlgorithmError
  | MissingRequiredClaimError

text \<open>
  Every exception that the modelled code raises or lets through. The argument of
  \<open>AuthCredentialsInvalid\<close> is the message given to the constructor (\<open>None\<close> when the
  class is raised without one). \<open>InvalidParamValueError\<close> carries its message and
  \<open>error_details\<close>. \<open>JwtError\<close> is a PyJWT exception that no \<open>except\<close> clause caught,
  \<open>DatabaseError\<close> an exception of the database raised by a flush,
  \<open>PendingRollbackError\<close> what SQLAlchemy raises when a session is used after a failed
  flush and before \<open>rollback()\<close>, \<open>LibraryError\<close> one of the parameter helpers of
  the framework.
\<close>

datatype error =
    AuthCredentialsInvalid "string option"
  | AuthCredentialsExpired
  | InvalidParamValueError string "string list"
  | UserIsNotConfirmedError
  | UserIsBlockedError
  | ServerError string
  | AttributeError
  | TypeError
  | JwtError jwt_exception
  | DatabaseError string
  | PendingRollbackError
  | LibraryError string

text \<open>api/exeptions.py: the application error codes and the HTTP status of the two
  application exceptions (the other classes get theirs from the framework).\<close>

datatype AppExceptionCodes = UserIsNotConfirmed | UserIsBlocked

fun app_exception_code_value :: "AppExceptionCodes \<Rightarrow> nat" where
  "app_exception_code_value UserIsNotConfirmed = 1001"
| "app_exception_code_value UserIsBlocked = 1002"

fun app_error_code :: "error \<Rightarrow> AppExceptionCodes option" where
  "app_error_code UserIsNotConfirmedError = Some UserIsNotConfirmed"
| "app_error_code UserIsBlockedError = Some UserIsBlocked"
| "app_error_code _ = None"

fun status_code :: "error \<Rightarrow> nat option" where
  "status_code UserIsNotConfirmedError = Some 403"
| "status_code UserIsBlockedError = Some 403"
| "status_code _ = None"

section \<open>The user model (api/models.py)\<close>

datatype UserType = SUPER_ADMIN | OPERATOR | USER

text \<open>
  A UUID is represented by its canonical text, so \<open>str(user_id)\<close> is the projection.
\<close>

datatype uuid = UUID string

fun str_uuid :: "uuid \<Rightarrow> string" where
  "str_uuid (UUID s) = s"

text \<open>
  The columns of \<open>AbstractUser\<close>. The role classes \<open>SuperAdmin\<close> and \<open>Operator\<close> add
  no column of their own. Objects of one session are unique per primary key (the
  identity map), so Python's \<open>==\<close> on two mapped objects, which is object identity,
  is equality of the objects here.
\<close>

record user =
  user_id :: uuid
  user_type :: UserType
  password_hash :: "string option"
  email :: "string option"
  is_email_confirmed :: bool
  last_name :: "string option"
  first_name :: "string option"
  is_confirmed :: bool
  is_blocked :: bool

text \<open>A checker returns normally (\<open>None\<close>) or raises (\<open>Some e\<close>).\<close>

fun run_checkers :: "(user \<Rightarrow> error option) list \<Rightarrow> user \<Rightarrow> error option" where
  "run_checkers [] u = None"
| "run_checkers (checker # checkers) u =
     (case checker u of Some e \<Rightarrow> Some e | None \<Rightarrow> run_checkers checkers u)"

fun run_params_checkers ::
  "(user \<Rightarrow> 'a \<Rightarrow> error option) list \<Rightarrow> user \<Rightarrow> 'a \<Rightarrow> error option" where
  "run_params_checkers [] u a = None"
| "run_params_checkers (params_checker # cs) u a =
     (case params_checker u a of Some e \<Rightarrow> Some e | None \<Rightarrow> run_params_checkers cs u a)"

text \<open>
  The decorator \<open>user_check(checkers, params_checkers)(func)\<close>: the checkers run on
  \<open>args[0]\<close>, then the parameter checkers on all arguments, then the function.
\<close>

definition user_check ::
  "(user \<Rightarrow> error option) list \<Rightarrow> (user \<Rightarrow> 'a \<Rightarrow> error option) list option \<Rightarrow>
   (user \<Rightarrow> 'a \<Rightarrow> bool) \<Rightarrow> user \<Rightarrow> 'a \<Rightarrow> error + bool" where
  "user_check checkers params_checkers func self a =
     (case run_checkers checkers self of
        Some e \<Rightarrow> Inl e
      | None \<Rightarrow>
          (case params_checkers of
             None \<Rightarrow> Inr (func self a)
           | Some pcs \<Rightarrow>
               (case run_params_checkers pcs self a of
                  Some e \<Rightarrow> Inl e
                | None \<Rightarrow> Inr (func self a))))"

definition check_account_confirmed :: "user \<Rightarrow> error option" where
  "check_account_confirmed u = (if \<not> is_confirmed u then Some UserIsNotConfirmedError else None)"

subsection \<open>Permissions of SuperAdmin\<close>

definition SuperAdmin_can_create_user :: "user \<Rightarrow> UserType \<Rightarrow> error + bool" where
  "SuperAdmin_can_create_user =
     user_check [check_account_confirmed] None (\<lambda>self t. t \<noteq> SUPER_ADMIN)"

definition SuperAdmin_can_read_user :: "user \<Rightarrow> user \<Rightarrow> error + bool" where
  "SuperAdmin_can_read_user =
     user_check [check_account_confirmed] None (\<lambda>self u. True)"

definition SuperAdmin_can_edit_user :: "user \<Rightarrow> user \<Rightarrow> error + bool" where
  "SuperAdmin_can_edit_user =
     user_check [check_account_confirmed] None (\<lambda>self u. True)"

subsection \<open>Permissions of Operator\<close>

definition Operator_can_create_user :: "user \<Rightarrow> UserType \<Rightarrow> error + bool" where
  "Operator_can_create_user =
     user_check [check_account_confirmed] None (\<lambda>self t. False)"

definition Operator_can_read_user :: "user \<Rightarrow> user \<Rightarrow> error + bool" where
  "Operator_can_read_user =
     user_check [check_account_confirmed] None (\<lambda>self u. u = self)"

definition Operator_can_edit_user :: "user \<Rightarrow> user \<Rightarrow> error + bool" where
  "Operator_can_edit_user =
     user_check [check_account_confirmed] None (\<lambda>self u. u = self)"

section \<open>Values, settings and the external libraries\<close>

text \<open>
  Python values that occur in token payloads and request bodies. A \<open>datetime\<close> is the
  number of microseconds since the epoch (the bounds of \<open>datetime\<close>, the years 1 and
  9999, are left out). A dict is an association list in insertion order.
\<close>

datatype pyval = PyNone | PyStr string | PyInt int | PyDateTime int

type_synonym payload = "(string \<times> pyval) list"

type_synonym credentials = "(string \<times> pyval) list"

text \<open>What an attribute of a request can hold.\<close>

datatype pyobj = ObjVal pyval | ObjPayload payload | ObjUUID uuid | ObjUser user

definition timedelta_minutes :: "int \<Rightarrow> int" where
  "timedelta_minutes m = m * 60 * 1000000"

text \<open>
  The enum \<open>SettingsValue\<close>: each member is the tuple (code, default, description,
  type, transformer); the type is \<open>int\<close> and the transformer \<open>None\<close> for both.
\<close>

datatype SettingsValue = access_token_timeout | refresh_token_timeout

fun setting_code :: "SettingsValue \<Rightarrow> string" where
  "setting_code access_token_timeout = ''access_token_timeout''"
| "setting_code refresh_token_timeout = ''refresh_token_timeout''"

fun setting_default :: "SettingsValue \<Rightarrow> int" where
  "setting_default access_token_timeout = 60 * 24 * 3"
| "setting_default refresh_token_timeout = 60 * 24 * 30"

definition APP_JWT_ALGORITHM :: string where
  "APP_JWT_ALGORITHM = ''HS256''"

text \<open>
  The libraries and the configuration that the code calls and that are not part of the
  repository are parameters of the model, so every theorem holds for any behaviour of
  theirs:
  \<^item> \<open>jwt_encode payload key algorithm\<close> and \<open>jwt_decode token key algorithms\<close> are
    PyJWT's \<open>jwt.encode\<close> and \<open>jwt.decode\<close>, the latter returning the payload or
    raising one of its exceptions;
  \<^item> \<open>settings_val\<close> is the property \<open>val\<close> of a settings member, the configured
    value the framework reads from the settings storage;
  \<^item> \<open>dpath_value\<close> and \<open>dpath_value_default_none\<close> are the framework's
    \<open>dpath_value(d, key, str)\<close> without and with \<open>default=None\<close>;
    \<open>transform_uuid\<close> is the framework's UUID parser;
  \<^item> \<open>str_lower\<close> is \<open>str.lower\<close>;
  \<^item> \<open>hasher_check password encoded\<close> is what Django's \<open>check_password\<close> finds out
    about a password and a stored hash that is a string: an exception, or the pair
    (\<open>is_correct\<close>, \<open>must_update\<close>); \<open>make_password\<close> is Django's hasher and
    \<open>validate_password password user\<close> the list of messages of the configured
    validators (empty when the password is accepted).
\<close>

record env =
  APP_JWT_SECRET_KEY :: string
  jwt_encode :: "payload \<Rightarrow> string \<Rightarrow> string \<Rightarrow> string"
  jwt_decode :: "pyobj \<Rightarrow> string \<Rightarrow> string list \<Rightarrow> jwt_exception + payload"
  settings_val :: "SettingsValue \<Rightarrow> int"
  dpath_value :: "credentials \<Rightarrow> string \<Rightarrow> error + string"
  dpath_value_default_none :: "credentials \<Rightarrow> string \<Rightarrow> error + string option"
  transform_uuid :: "pyobj \<Rightarrow> error + uuid"
  str_lower :: "string \<Rightarrow> string"
  hasher_check :: "string \<Rightarrow> string \<Rightarrow> error + bool \<times> bool"
  make_password :: "string \<Rightarrow> string"
  validate_password :: "string \<Rightarrow> user \<Rightarrow> string list"

section \<open>Storage and logging\<close>

text \<open>The table \<open>app_refresh_token\<close>; \<open>value\<close> is its primary key.\<close>

record RefreshToken =
  token_value :: string
  token_user_id :: uuid

text \<open>A record of the module logger: level, message, details.\<close>

datatype log_record = LogRecord string string "string list"

text \<open>
  The state outside the program: the SQLAlchemy session and the log. \<open>users\<close> and
  \<open>refresh_tokens\<close> are the rows as the session sees them (its objects, with the
  changes and additions not yet committed), \<open>committed_users\<close> and
  \<open>committed_refresh_tokens\<close> the rows the database holds. \<open>db_writable\<close> tells
  whether the database accepts a flush at all. \<open>needs_rollback\<close> holds after a flush
  has failed, until \<open>rollback()\<close> is called (the modelled code never calls it).
\<close>

record world =
  users :: "user list"
  refresh_tokens :: "RefreshToken list"
  committed_users :: "user list"
  committed_refresh_tokens :: "RefreshToken list"
  db_writable :: bool
  needs_rollback :: bool
  log_records :: "log_record list"

definition session_add :: "RefreshToken \<Rightarrow> world \<Rightarrow> world" where
  "session_add t w = w\<lparr>refresh_tokens := refresh_tokens w @ [t]\<rparr>"

text \<open>
  A flush that fails rolls the transaction back: the changes and additions that were not
  committed are lost (the objects of committed rows are expired, the added objects are
  expunged), and the session refuses further work.
\<close>

definition flush_failed :: "world \<Rightarrow> world" where
  "flush_failed w = w\<lparr>users := committed_users w,
                       refresh_tokens := committed_refresh_tokens w,
                       needs_rollback := True\<rparr>"

text \<open>
  \<open>session.commit()\<close>: it raises at once on a session that needs a rollback; the
  flush fails when the database does not accept it or on a duplicate primary key of
  \<open>app_refresh_token\<close>. The result is the exception, if any, and the state after.
\<close>

definition session_commit :: "world \<Rightarrow> error option \<times> world" where
  "session_commit w =
     (if needs_rollback w then (Some PendingRollbackError, w)
      else if \<not> db_writable w then (Some (DatabaseError ''OperationalError''), flush_failed w)
      else if \<not> distinct (map token_value (refresh_tokens w))
        then (Some (DatabaseError ''IntegrityError''), flush_failed w)
      else (None, w\<lparr>committed_users := users w,
                     committed_refresh_tokens := refresh_tokens w\<rparr>))"

text \<open>The result of a query (\<open>.first()\<close>) on the session, given the row the tables
  yield: a session that needs a rollback raises instead.\<close>

definition session_first :: "world \<Rightarrow> 'a option \<Rightarrow> error + 'a option" where
  "session_first w row = (if needs_rollback w then Inl PendingRollbackError else Inr row)"

text \<open>\<open>object_session(self)\<close> is the session when the object belongs to it, else \<open>None\<close>.\<close>

definition object_session :: "world \<Rightarrow> user \<Rightarrow> bool" where
  "object_session w self = (user_id self \<in> set (map user_id (users w)))"

text \<open>
  Reading a column of a mapped object. In a session that needs a rollback the objects
  are expired, and loading one raises.
\<close>

definition read_attr :: "world \<Rightarrow> user \<Rightarrow> (user \<Rightarrow> 'a) \<Rightarrow> error + 'a" where
  "read_attr w self column =
     (if needs_rollback w \<and> object_session w self then Inl PendingRollbackError
      else Inr (column self))"

text \<open>
  The object \<open>self\<close> after a failed flush, \<open>w\<close> being the state after it: when the
  session still holds a row of its identity the object is expired and stands for that
  row, so what was assigned to it is lost; an object that had only been added is
  expunged and keeps what it holds.
\<close>

definition after_failed_flush :: "world \<Rightarrow> user \<Rightarrow> user" where
  "after_failed_flush w self =
     (case find (\<lambda>x. user_id x = user_id self) (users w) of
        Some row \<Rightarrow> row
      | None \<Rightarrow> self)"

section \<open>Passwords (api/models.py)\<close>

text \<open>
  \<open>AbstractUser.set_password\<close>. The assignment to \<open>self.password_hash\<close> changes the
  object, which is also the session's object of that identity.
\<close>

definition set_password :: "env \<Rightarrow> string \<Rightarrow> user \<times> world \<Rightarrow> error option \<times> user \<times> world" where
  "set_password env raw_password st =
     (case st of (self, w) \<Rightarrow>
        (case validate_password env raw_password self of
           m # ms \<Rightarrow>
             (Some (InvalidParamValueError ''Invalid password value'' (m # ms)), self,
              w\<lparr>log_records := log_records w @
                   [LogRecord ''INFO'' ''User password is invalid. Details: '' (m # ms)]\<rparr>)
         | [] \<Rightarrow>
             (let h = make_password env raw_password in
              (None, self\<lparr>password_hash := Some h\<rparr>,
               w\<lparr>users := map (\<lambda>x. if user_id x = user_id self
                                     then x\<lparr>password_hash := Some h\<rparr> else x) (users w)\<rparr>))))"

text \<open>
  The closure \<open>setter\<close> of \<open>check_password\<close>: \<open>set_password\<close> stands before the
  \<open>try\<close>; the \<open>try\<close> covers \<open>object_session(self)\<close> and \<open>session.commit()\<close>, and
  its handler is \<open>pass\<close>. On a detached object \<open>object_session\<close> is \<open>None\<close> and
  \<open>None.commit()\<close> raises AttributeError inside the \<open>try\<close>. A commit that fails is
  swallowed too, and leaves the session rolled back and the object expired.
\<close>

definition setter :: "env \<Rightarrow> string \<Rightarrow> user \<times> world \<Rightarrow> error option \<times> user \<times> world" where
  "setter env raw_password st =
     (case set_password env raw_password st of
        (Some e, self, w) \<Rightarrow> (Some e, self, w)
      | (None, self, w) \<Rightarrow>
          if object_session w self
          then (case session_commit w of
                  (None, w1) \<Rightarrow> (None, self, w1)
                | (Some e, w1) \<Rightarrow> (None, after_failed_flush w1 self, w1))
          else (None, self, w))"

text \<open>
  Django's \<open>check_password(password, encoded, setter)\<close> (Django 4.0, the version
  core/settings.py refers to): \<open>False\<close> for the password \<open>None\<close>. For the hash
  \<open>None\<close>, \<open>is_password_usable\<close> is true and \<open>identify_hasher\<close> takes its length,
  which raises TypeError. Otherwise the hash is checked, the setter is called when the
  password is correct and the hash must be updated, and \<open>is_correct\<close> is returned.
\<close>

definition django_check_password ::
  "env \<Rightarrow> string option \<Rightarrow> string option \<Rightarrow> (string \<Rightarrow> 's \<Rightarrow> error option \<times> 's) \<Rightarrow> 's \<Rightarrow>
   (error + bool) \<times> 's" where
  "django_check_password env password encoded set_hash st =
     (case password of
        None \<Rightarrow> (Inr False, st)
      | Some p \<Rightarrow>
          (case encoded of
             None \<Rightarrow> (Inl TypeError, st)
           | Some h \<Rightarrow>
               (case hasher_check env p h of
                  Inl e \<Rightarrow> (Inl e, st)
                | Inr (is_correct, must_update) \<Rightarrow>
                    if is_correct \<and> must_update
                    then (case set_hash p st of
                            (Some e, st1) \<Rightarrow> (Inl e, st1)
                          | (None, st1) \<Rightarrow> (Inr is_correct, st1))
                    else (Inr is_correct, st))))"

text \<open>\<open>AbstractUser.check_password\<close>: the result, the user object and the state after.
  It reads \<open>self.password_hash\<close> first.\<close>

definition check_password ::
  "env \<Rightarrow> user \<Rightarrow> string option \<Rightarrow> world \<Rightarrow> (error + bool) \<times> user \<times> world" where
  "check_password env self raw_password w =
     (case read_attr w self password_hash of
        Inl e \<Rightarrow> (Inl e, self, w)
      | Inr encoded \<Rightarrow> django_check_password env raw_password encoded (setter env) (self, w))"

section \<open>Token issuance (api/auth/auth_engines/abstract.py)\<close>

text \<open>
  \<open>_create_token_pair\<close>. \<open>datetime.utcnow()\<close> is read twice, once for each token:
  \<open>clock\<close> is the pair of the two readings.
\<close>

definition access_payload :: "env \<Rightarrow> int \<Rightarrow> uuid \<Rightarrow> payload" where
  "access_payload env now uid =
     [(''user_id'', PyStr (str_uuid uid)),
      (''exp'', PyDateTime (now + timedelta_minutes (settings_val env access_token_timeout)))]"

definition refresh_payload :: "env \<Rightarrow> int \<Rightarrow> uuid \<Rightarrow> payload" where
  "refresh_payload env now uid =
     [(''user_id'', PyStr (str_uuid uid)),
      (''exp'', PyDateTime (now + timedelta_minutes (settings_val env refresh_token_timeout)))]"

definition create_token_pair :: "env \<Rightarrow> int \<times> int \<Rightarrow> uuid \<Rightarrow> string \<times> string" where
  "create_token_pair env clock uid =
     (let access_token =
            jwt_encode env (access_payload env (fst clock) uid)
              (APP_JWT_SECRET_KEY env) APP_JWT_ALGORITHM;
          refresh_token =
            jwt_encode env (refresh_payload env (snd clock) uid)
              (APP_JWT_SECRET_KEY env) APP_JWT_ALGORITHM
      in (access_token, refresh_token))"

section \<open>The email engine (api/auth/auth_engines/email.py)\<close>

text \<open>The row that \<open>query(AbstractUser).filter(AbstractUser.email == email).first()\<close>
  finds in the tables.\<close>

definition query_user_by_email :: "world \<Rightarrow> string \<Rightarrow> user option" where
  "query_user_by_email w e = find (\<lambda>u. email u = Some e) (users w)"

definition get_info ::
  "env \<Rightarrow> world \<Rightarrow> credentials \<Rightarrow> bool \<Rightarrow> error + string \<times> string option \<times> user option" where
  "get_info env w credentials requires_password =
     (case dpath_value env credentials ''email'' of
        Inl e \<Rightarrow> Inl e
      | Inr em \<Rightarrow>
          (let email_lower = str_lower env em in
           (case (if requires_password
                  then (case dpath_value env credentials ''password'' of
                          Inl e \<Rightarrow> Inl e | Inr p \<Rightarrow> Inr (Some p))
                  else dpath_value_default_none env credentials ''password'') of
              Inl e \<Rightarrow> Inl e
            | Inr password \<Rightarrow>
                (case session_first w (query_user_by_email w email_lower) of
                   Inl e \<Rightarrow> Inl e
                 | Inr found \<Rightarrow> Inr (email_lower, password, found)))))"

definition invalid_message :: string where
  "invalid_message = ''User password or email is not valid''"

definition authenticate ::
  "env \<Rightarrow> int \<times> int \<Rightarrow> world \<Rightarrow> credentials \<Rightarrow> (error + string \<times> string \<times> user) \<times> world" where
  "authenticate env clock w credentials =
     (case get_info env w credentials True of
        Inl e \<Rightarrow> (Inl e, w)
      | Inr (email_lower, password, found) \<Rightarrow>
          (case found of
             None \<Rightarrow> (Inl (AuthCredentialsInvalid (Some invalid_message)), w)
           | Some u \<Rightarrow>
               (case check_password env u password w of
                  (Inl e, u1, w1) \<Rightarrow> (Inl e, w1)
                | (Inr False, u1, w1) \<Rightarrow>
                    (Inl (AuthCredentialsInvalid (Some invalid_message)), w1)
                | (Inr True, u1, w1) \<Rightarrow>
                    (case read_attr w1 u1 user_id of
                       Inl e \<Rightarrow> (Inl e, w1)
                     | Inr uid \<Rightarrow>
                         (let tokens = create_token_pair env clock uid;
                              token = \<lparr>token_value = snd tokens, token_user_id = uid\<rparr>;
                              w2 = session_add token w1
                          in (case session_commit w2 of
                                (Some e, w3) \<Rightarrow> (Inl e, w3)
                              | (None, w3) \<Rightarrow> (Inr (fst tokens, snd tokens, u1), w3)))))))"

definition bounded :: "user \<Rightarrow> bool" where
  "bounded u = (email u \<noteq> None)"

text \<open>
  The same users with other values of \<open>is_confirmed\<close> and \<open>is_blocked\<close>: \<open>f\<close> gives
  the two flags of the user of each id.
\<close>

definition reflag :: "(uuid \<Rightarrow> bool \<times> bool) \<Rightarrow> user \<Rightarrow> user" where
  "reflag f x = x\<lparr>is_confirmed := fst (f (user_id x)), is_blocked := snd (f (user_id x))\<rparr>"

definition reflag_world :: "(uuid \<Rightarrow> bool \<times> bool) \<Rightarrow> world \<Rightarrow> world" where
  "reflag_world f w = w\<lparr>users := map (reflag f) (users w),
                         committed_users := map (reflag f) (committed_users w)\<rparr>"

section \<open>Lazy request attributes (api/middleware.py)\<close>

text \<open>
  A call of \<open>jwt.decode\<close> or a user query made while a request is served, with its
  argument and whether it succeeded. The list of these calls is kept in the request
  only to count them.
\<close>

datatype library_call = JwtDecodeCall pyobj bool | UserQueryCall uuid bool

text \<open>
  A request: the headers \<open>META\<close>, the instance \<open>__dict__\<close> (\<open>attrs\<close>), the session
  \<open>lamb_db_session\<close>, and the calls made so far.
\<close>

record request =
  META :: "(string \<times> string) list"
  attrs :: "string \<rightharpoonup> pyobj"
  lamb_db_session :: world
  library_calls :: "library_call list"

text \<open>
  \<open>_LazyHttpRequestDescriptor.__get__\<close> and \<open>__set__\<close> on a request instance, for
  the descriptor with the given private name and factory. A factory that raises leaves
  the private name unset.
\<close>

definition descr_get ::
  "string \<Rightarrow> (request \<Rightarrow> (error + pyobj) \<times> request) \<Rightarrow> request \<Rightarrow> (error + pyobj) \<times> request" where
  "descr_get private_name factory instance =
     (case attrs instance private_name of
        Some v \<Rightarrow> (Inr v, instance)
      | None \<Rightarrow>
          (case factory instance of
             (Inl e, r) \<Rightarrow> (Inl e, r)
           | (Inr v, r) \<Rightarrow> (Inr v, r\<lparr>attrs := (attrs r)(private_name \<mapsto> v)\<rparr>)))"

definition descr_set :: "string \<Rightarrow> request \<Rightarrow> pyobj \<Rightarrow> request" where
  "descr_set private_name instance v = instance\<lparr>attrs := (attrs instance)(private_name \<mapsto> v)\<rparr>"

definition get_user_token_from_headers :: "request \<Rightarrow> (error + pyobj) \<times> request" where
  "get_user_token_from_headers r =
     (case map_of (META r) ''HTTP_X_LAMB_AUTH_TOKEN'' of
        Some t \<Rightarrow> (Inr (ObjVal (PyStr t)), r)
      | None \<Rightarrow> (Inr (ObjVal PyNone), r))"

definition app_user_token :: "request \<Rightarrow> (error + pyobj) \<times> request" where
  "app_user_token = descr_get ''_app_user_token'' get_user_token_from_headers"

text \<open>The \<open>try\<close> statement of \<open>_get_user_token_payload\<close> on a given token.\<close>

definition decode_user_token :: "env \<Rightarrow> pyobj \<Rightarrow> error + payload" where
  "decode_user_token env token =
     (case jwt_decode env token (APP_JWT_SECRET_KEY env) [APP_JWT_ALGORITHM] of
        Inr p \<Rightarrow> Inr p
      | Inl ex \<Rightarrow>
          if ex = ExpiredSignatureError then Inl AuthCredentialsExpired
          else if ex = DecodeError \<or> ex = InvalidSignatureError \<or> ex = InvalidAlgorithmError
            then Inl (AuthCredentialsInvalid None)
          else Inl (JwtError ex))"

definition get_user_token_payload :: "env \<Rightarrow> request \<Rightarrow> (error + pyobj) \<times> request" where
  "get_user_token_payload env request =
     (case app_user_token request of
        (Inl e, r) \<Rightarrow> (Inl e, r)
      | (Inr token, r) \<Rightarrow>
          (case decode_user_token env token of
             Inl e \<Rightarrow> (Inl e, r\<lparr>library_calls := library_calls r @ [JwtDecodeCall token False]\<rparr>)
           | Inr p \<Rightarrow>
               (Inr (ObjPayload p),
                r\<lparr>library_calls := library_calls r @ [JwtDecodeCall token True]\<rparr>)))"

definition app_user_token_payload :: "env \<Rightarrow> request \<Rightarrow> (error + pyobj) \<times> request" where
  "app_user_token_payload env = descr_get ''_app_user_token_payload'' (get_user_token_payload env)"

text \<open>\<open>_get_user_id\<close>: \<open>.get\<close> exists on a dict only.\<close>

definition get_user_id :: "env \<Rightarrow> request \<Rightarrow> (error + pyobj) \<times> request" where
  "get_user_id env request =
     (case app_user_token_payload env request of
        (Inl e, r) \<Rightarrow> (Inl e, r)
      | (Inr (ObjPayload p), r) \<Rightarrow>
          (case transform_uuid env
                  (case map_of p ''user_id'' of None \<Rightarrow> ObjVal PyNone | Some v \<Rightarrow> ObjVal v) of
             Inl e \<Rightarrow> (Inl e, r)
           | Inr uid \<Rightarrow> (Inr (ObjUUID uid), r))
      | (Inr _, r) \<Rightarrow> (Inl AttributeError, r))"

definition app_user_id :: "env \<Rightarrow> request \<Rightarrow> (error + pyobj) \<times> request" where
  "app_user_id env = descr_get ''_app_user_id'' (get_user_id env)"

text \<open>The row that \<open>query(AbstractUser).filter(AbstractUser.user_id == uid).first()\<close>
  finds in the tables.\<close>

definition query_user_by_id :: "world \<Rightarrow> uuid \<Rightarrow> user option" where
  "query_user_by_id w uid = find (\<lambda>u. user_id u = uid) (users w)"

definition get_user :: "env \<Rightarrow> request \<Rightarrow> (error + pyobj) \<times> request" where
  "get_user env request =
     (case app_user_id env request of
        (Inl e, r) \<Rightarrow> (Inl e, r)
      | (Inr uid_obj, r) \<Rightarrow>
          (case transform_uuid env uid_obj of
             Inl e \<Rightarrow> (Inl e, r)
           | Inr uid \<Rightarrow>
               (case session_first (lamb_db_session r)
                       (query_user_by_id (lamb_db_session r) uid) of
                  Inl e \<Rightarrow>
                    (Inl e, r\<lparr>library_calls := library_calls r @ [UserQueryCall uid False]\<rparr>)
                | Inr None \<Rightarrow>
                    (Inl (AuthCredentialsInvalid None),
                     r\<lparr>library_calls := library_calls r @ [UserQueryCall uid False]\<rparr>)
                | Inr (Some u) \<Rightarrow>
                    (Inr (ObjUser u),
                     r\<lparr>library_calls := library_calls r @ [UserQueryCall uid True]\<rparr>))))"

definition app_user :: "env \<Rightarrow> request \<Rightarrow> (error + pyobj) \<times> request" where
  "app_user env = descr_get ''_app_user'' (get_user env)"

text \<open>
  Reading and writing an attribute of a request once \<open>AppAuthMiddleware\<close> has attached
  the four descriptors to the request class: a descriptor with \<open>__set__\<close> takes
  precedence over the instance \<open>__dict__\<close>; any other name is looked up there.
\<close>

definition request_getattr :: "env \<Rightarrow> string \<Rightarrow> request \<Rightarrow> (error + pyobj) \<times> request" where
  "request_getattr env name r =
     (if name = ''app_user_token'' then app_user_token r
      else if name = ''app_user_token_payload'' then app_user_token_payload env r
      else if name = ''app_user_id'' then app_user_id env r
      else if name = ''app_user'' then app_user env r
      else (case attrs r name of None \<Rightarrow> (Inl AttributeError, r) | Some v \<Rightarrow> (Inr v, r)))"

definition request_setattr :: "string \<Rightarrow> pyobj \<Rightarrow> request \<Rightarrow> request" where
  "request_setattr name v r =
     (if name = ''app_user_token'' \<or> name = ''app_user_token_payload'' \<or>
         name = ''app_user_id'' \<or> name = ''app_user''
      then descr_set (CHR ''_'' # name) r v
      else r\<lparr>attrs := (attrs r)(name \<mapsto> v)\<rparr>)"

text \<open>
  The attribute accesses of one request, in order. A read that raises is followed by
  the next access when its caller handles the exception, as the logging filter does.
\<close>

datatype attr_access = GetAttr string | SetAttr string pyobj

fun run_accesses ::
  "env \<Rightarrow> attr_access list \<Rightarrow> request \<Rightarrow> (error + pyobj) list \<times> request" where
  "run_accesses env [] r = ([], r)"
| "run_accesses env (GetAttr name # accs) r =
     (case request_getattr env name r of
        (res, r1) \<Rightarrow> (case run_accesses env accs r1 of (rs, r2) \<Rightarrow> (res # rs, r2)))"
| "run_accesses env (SetAttr name v # accs) r =
     run_accesses env accs (request_setattr name v r)"

text \<open>api/logging.py, \<open>AppContextFilter.filter\<close>: the value of \<open>record.app_user_id\<close>.\<close>

definition filter_app_user_id :: "env \<Rightarrow> request \<Rightarrow> pyobj \<times> request" where
  "filter_app_user_id env r =
     (case app_user_id env r of
        (Inl e, r1) \<Rightarrow> (ObjVal PyNone, r1)
      | (Inr v, r1) \<Rightarrow> (v, r1))"

definition decode_calls :: "request \<Rightarrow> nat" where
  "decode_calls r = length (filter (\<lambda>c. case c of JwtDecodeCall t ok \<Rightarrow> True | _ \<Rightarrow> False)
     (library_calls r))"

definition query_calls :: "request \<Rightarrow> nat" where
  "query_calls r = length (filter (\<lambda>c. case c of UserQueryCall u ok \<Rightarrow> True | _ \<Rightarrow> False)
     (library_calls r))"

definition decode_successes :: "request \<Rightarrow> nat" where
  "decode_successes r = length (filter (\<lambda>c. case c of JwtDecodeCall t ok \<Rightarrow> ok | _ \<Rightarrow> False)
     (library_calls r))"

definition query_successes :: "request \<Rightarrow> nat" where
  "query_successes r = length (filter (\<lambda>c. case c of UserQueryCall u ok \<Rightarrow> ok | _ \<Rightarrow> False)
     (library_calls r))"

definition new_request :: "(string \<times> string) list \<Rightarrow> world \<Rightarrow> request" where
  "new_request meta w =
     \<lparr>META = meta, attrs = Map.empty, lamb_db_session = w, library_calls = []\<rparr>"

text \<open>The calls that failed.\<close>

definition failed_calls :: "request \<Rightarrow> nat" where
  "failed_calls r = length (filter (\<lambda>c. case c of JwtDecodeCall t ok \<Rightarrow> \<not> ok
                                              | UserQueryCall u ok \<Rightarrow> \<not> ok) (library_calls r))"

text \<open>
  The invariants of a request: a successful decode (a successful user query) has been
  made at most once, and once made the payload (the user) is cached.
\<close>

definition decode_cached :: "request \<Rightarrow> bool" where
  "decode_cached r =
     (decode_successes r = 0 \<or>
      (decode_successes r = 1 \<and> attrs r ''_app_user_token_payload'' \<noteq> None))"

definition query_cached :: "request \<Rightarrow> bool" where
  "query_cached r =
     (query_successes r = 0 \<or> (query_successes r = 1 \<and> attrs r ''_app_user'' \<noteq> None))"

text \<open>The names of the four lazy attributes, and the accesses that read the payload,
  the user id or the user.\<close>

definition identity_attrs :: "string list" where
  "identity_attrs = [''app_user_token'', ''app_user_token_payload'', ''app_user_id'', ''app_user'']"

fun reads_identity :: "attr_access \<Rightarrow> bool" where
  "reads_identity (GetAttr name) =
     (name = ''app_user_token_payload'' \<or> name = ''app_user_id'' \<or> name = ''app_user'')"
| "reads_identity (SetAttr name v) = False"

section \<open>A sample configuration\<close>

text \<open>
  One concrete behaviour of the libraries and one database, for the instances of the
  theorems below. Hashes are \<open>old$\<close> or \<open>new$\<close> followed by the password; a hash
  that starts with \<open>old$\<close> must be updated; the validator asks for eight characters,
  as the \<open>MinimumLengthValidator\<close> of core/settings.py does. The encoder names a token
  after the user id and the length of its life; the decoder knows the access token of
  \<open>alice\<close>, an expired token, a token that is not valid yet, and rejects the rest.
  \<open>dora\<close> is stored with upper-case letters in her email, \<open>bob\<close> and \<open>carol\<close> are
  blocked and not confirmed and have hashes of the old format, \<open>erin\<close> has no
  password hash, \<open>eve\<close> is blocked, not confirmed and stored with upper-case letters
  in her email.
\<close>

definition alice :: user where
  "alice = \<lparr> user_id = UUID ''a1'', user_type = SUPER_ADMIN,
     password_hash = Some ''new$secret-password'', email = Some ''alice@example.com'',
     is_email_confirmed = True, last_name = None, first_name = None,
     is_confirmed = True, is_blocked = False \<rparr>"

definition bob :: user where
  "bob = \<lparr> user_id = UUID ''b2'', user_type = OPERATOR,
     password_hash = Some ''old$123'', email = Some ''bob@example.com'',
     is_email_confirmed = False, last_name = None, first_name = None,
     is_confirmed = False, is_blocked = True \<rparr>"

definition ascii_lower :: "string \<Rightarrow> string" where
  "ascii_lower s = map (\<lambda>c. case map_of (zip ''ABCDEFGHIJKLMNOPQRSTUVWXYZ'' ''abcdefghijklmnopqrstuvwxyz'') c of Some d \<Rightarrow> d | None \<Rightarrow> c) s"

definition sample_env :: env where
  "sample_env = \<lparr>
     APP_JWT_SECRET_KEY = ''secret'',
     jwt_encode = (\<lambda>p key alg.
        case (map_of p ''user_id'', map_of p ''exp'') of
          (Some (PyStr s), Some (PyDateTime t)) \<Rightarrow>
             s @ (if t < 1000000000000 then ''.short'' else ''.long'')
        | _ \<Rightarrow> ''?''),
     jwt_decode = (\<lambda>tok key algs.
        case tok of
          ObjVal (PyStr s) \<Rightarrow>
            if s = ''a1.short'' then Inr [(''user_id'', PyStr ''a1''), (''exp'', PyInt 259200)]
            else if s = ''expired'' then Inl ExpiredSignatureError
            else if s = ''early'' then Inl ImmatureSignatureError
            else Inl DecodeError
        | _ \<Rightarrow> Inl DecodeError),
     settings_val = setting_default,
     dpath_value = (\<lambda>d k.
        case map_of d k of
          Some (PyStr s) \<Rightarrow> Inr s
        | _ \<Rightarrow> Inl (LibraryError ''InvalidBodyStructureError'')),
     dpath_value_default_none = (\<lambda>d k.
        case map_of d k of Some (PyStr s) \<Rightarrow> Inr (Some s) | _ \<Rightarrow> Inr None),
     transform_uuid = (\<lambda>x.
        case x of
          ObjUUID u \<Rightarrow> Inr u
        | ObjVal (PyStr s) \<Rightarrow> Inr (UUID s)
        | _ \<Rightarrow> Inl (LibraryError ''InvalidParamValueError'')),
     str_lower = ascii_lower,
     hasher_check = (\<lambda>p h. Inr (h = ''old$'' @ p \<or> h = ''new$'' @ p, take 4 h = ''old$'')),
     make_password = (\<lambda>p. ''new$'' @ p),
     validate_password = (\<lambda>p u.
        if length p < 8 then [''This password is too short.''] else []) \<rparr>"

definition carol :: user where
  "carol = \<lparr> user_id = UUID ''c3'', user_type = OPERATOR,
     password_hash = Some ''old$correct-horse'', email = Some ''carol@example.com'',
     is_email_confirmed = False, last_name = None, first_name = None,
     is_confirmed = False, is_blocked = True \<rparr>"

definition dora :: user where
  "dora = \<lparr> user_id = UUID ''d4'', user_type = SUPER_ADMIN,
     password_hash = Some ''new$battery-staple'', email = Some ''Dora@Example.com'',
     is_email_confirmed = True, last_name = None, first_name = None,
     is_confirmed = True, is_blocked = False \<rparr>"

definition erin :: user where
  "erin = \<lparr> user_id = UUID ''e5'', user_type = OPERATOR,
     password_hash = None, email = Some ''erin@example.com'',
     is_email_confirmed = True, last_name = None, first_name = None,
     is_confirmed = True, is_blocked = False \<rparr>"

definition eve :: user where
  "eve = \<lparr> user_id = UUID ''f6'', user_type = OPERATOR,
     password_hash = Some ''new$open-sesame'', email = Some ''Eve@Example.com'',
     is_email_confirmed = False, last_name = None, first_name = None,
     is_confirmed = False, is_blocked = True \<rparr>"

definition sample_world :: world where
  "sample_world = \<lparr> users = [alice, bob, carol, dora, erin, eve], refresh_tokens = [],
     committed_users = [alice, bob, carol, dora, erin, eve], committed_refresh_tokens = [],
     db_writable = True, needs_rollback = False, log_records = [] \<rparr>"

definition creds :: "string \<Rightarrow> string \<Rightarrow> credentials" where
  "creds e p = [(''email'', PyStr e), (''password'', PyStr p)]"

definition token_request :: "string \<Rightarrow> request" where
  "token_request t = new_request [(''HTTP_X_LAMB_AUTH_TOKEN'', t)] sample_world"

section \<open>Permission predicates\<close>

lemma user_check_confirmed:
  "user_check [check_account_confirmed] None f self a =
     (if is_confirmed self then Inr (f self a) else Inl UserIsNotConfirmedError)"
  by (simp add: user_check_def check_account_confirmed_def)

text \<open>
  C3. Every permission predicate of both role classes, on any argument, raises
  \<open>UserIsNotConfirmedError\<close> (HTTP status 403) when the actor's \<open>is_confirmed\<close> is
  false, and returns a boolean when it is true. A predicate is a function of the actor
  and its argument only: it reads no storage and changes nothing.
\<close>

theorem C3_unconfirmed_actor_raises:
  "(\<not> is_confirmed actor \<longrightarrow>
      SuperAdmin_can_create_user actor t = Inl UserIsNotConfirmedError \<and>
      SuperAdmin_can_read_user actor target = Inl UserIsNotConfirmedError \<and>
      SuperAdmin_can_edit_user actor target = Inl UserIsNotConfirmedError \<and>
      Operator_can_create_user actor t = Inl UserIsNotConfirmedError \<and>
      Operator_can_read_user actor target = Inl UserIsNotConfirmedError \<and>
      Operator_can_edit_user actor target = Inl UserIsNotConfirmedError) \<and>
   (is_confirmed actor \<longrightarrow>
      (\<exists>b. SuperAdmin_can_create_user actor t = Inr b) \<and>
      (\<exists>b. SuperAdmin_can_read_user actor target = Inr b) \<and>
      (\<exists>b. SuperAdmin_can_edit_user actor target = Inr b) \<and>
      (\<exists>b. Operator_can_create_user actor t = Inr b) \<and>
      (\<exists>b. Operator_can_read_user actor target = Inr b) \<and>
      (\<exists>b. Operator_can_edit_user actor target = Inr b)) \<and>
   status_code UserIsNotConfirmedError = Some 403"
  by (auto simp add: SuperAdmin_can_create_user_def SuperAdmin_can_read_user_def
      SuperAdmin_can_edit_user_def Operator_can_create_user_def
      Operator_can_read_user_def Operator_can_edit_user_def user_check_confirmed)

theorem C3_witness:
  "\<not> is_confirmed bob \<and>
   SuperAdmin_can_create_user bob OPERATOR = Inl UserIsNotConfirmedError \<and>
   SuperAdmin_can_read_user bob alice = Inl UserIsNotConfirmedError \<and>
   SuperAdmin_can_edit_user bob alice = Inl UserIsNotConfirmedError \<and>
   Operator_can_create_user bob OPERATOR = Inl UserIsNotConfirmedError \<and>
   Operator_can_read_user bob bob = Inl UserIsNotConfirmedError \<and>
   Operator_can_edit_user bob bob = Inl UserIsNotConfirmedError \<and>
   is_confirmed alice \<and>
   (\<exists>b. SuperAdmin_can_read_user alice bob = Inr b)"
proof -
  have nb: "\<not> is_confirmed bob" by (simp add: bob_def)
  have ca: "is_confirmed alice" by (simp add: alice_def)
  show ?thesis
    using nb ca C3_unconfirmed_actor_raises [of bob OPERATOR alice]
      C3_unconfirmed_actor_raises [of bob OPERATOR bob]
      C3_unconfirmed_actor_raises [of alice OPERATOR bob]
    by simp
qed

text \<open>
  C4. For a confirmed actor: a SuperAdmin may create every role but \<open>SUPER_ADMIN\<close>
  and may read and edit every target; an Operator may create no role and may read and
  edit exactly itself.
\<close>

theorem C4_permission_table:
  "is_confirmed actor \<Longrightarrow>
     SuperAdmin_can_create_user actor t = Inr (t \<noteq> SUPER_ADMIN) \<and>
     SuperAdmin_can_read_user actor target = Inr True \<and>
     SuperAdmin_can_edit_user actor target = Inr True \<and>
     Operator_can_create_user actor t = Inr False \<and>
     Operator_can_read_user actor target = Inr (target = actor) \<and>
     Operator_can_edit_user actor target = Inr (target = actor)"
  by (simp add: SuperAdmin_can_create_user_def SuperAdmin_can_read_user_def
      SuperAdmin_can_edit_user_def Operator_can_create_user_def
      Operator_can_read_user_def Operator_can_edit_user_def user_check_confirmed)

theorem C4_witness:
  "is_confirmed alice \<and>
   SuperAdmin_can_create_user alice SUPER_ADMIN = Inr False \<and>
   SuperAdmin_can_create_user alice OPERATOR = Inr True \<and>
   SuperAdmin_can_read_user alice bob = Inr True \<and>
   SuperAdmin_can_edit_user alice bob = Inr True \<and>
   Operator_can_create_user alice USER = Inr False \<and>
   Operator_can_read_user alice bob = Inr False \<and>
   Operator_can_read_user alice alice = Inr True \<and>
   Operator_can_edit_user alice bob = Inr False \<and>
   Operator_can_edit_user alice alice = Inr True"
proof -
  have ca: "is_confirmed alice" by (simp add: alice_def)
  have ne: "bob \<noteq> alice" by (simp add: alice_def bob_def)
  show ?thesis
    using ca ne C4_permission_table [OF ca, of SUPER_ADMIN bob]
      C4_permission_table [OF ca, of OPERATOR alice]
      C4_permission_table [OF ca, of USER bob]
    by simp
qed

text \<open>
  C8 (as the code has it). No permission predicate reads \<open>is_blocked\<close>, and none
  raises \<open>UserIsBlockedError\<close>: for a blocked actor every predicate returns its boolean
  when the actor is confirmed and raises \<open>UserIsNotConfirmedError\<close> when it is not.
  \<open>UserIsBlockedError\<close> is declared with HTTP status 403.
\<close>

theorem C8_blocked_actor_not_rejected:
  "is_blocked actor \<Longrightarrow>
     SuperAdmin_can_create_user actor t =
       (if is_confirmed actor then Inr (t \<noteq> SUPER_ADMIN) else Inl UserIsNotConfirmedError) \<and>
     SuperAdmin_can_read_user actor target =
       (if is_confirmed actor then Inr True else Inl UserIsNotConfirmedError) \<and>
     SuperAdmin_can_edit_user actor target =
       (if is_confirmed actor then Inr True else Inl UserIsNotConfirmedError) \<and>
     Operator_can_create_user actor t =
       (if is_confirmed actor then Inr False else Inl UserIsNotConfirmedError) \<and>
     Operator_can_read_user actor target =
       (if is_confirmed actor then Inr (target = actor) else Inl UserIsNotConfirmedError) \<and>
     Operator_can_edit_user actor target =
       (if is_confirmed actor then Inr (target = actor) else Inl UserIsNotConfirmedError) \<and>
     status_code UserIsBlockedError = Some 403"
  by (simp add: SuperAdmin_can_create_user_def SuperAdmin_can_read_user_def
      SuperAdmin_can_edit_user_def Operator_can_create_user_def
      Operator_can_read_user_def Operator_can_edit_user_def user_check_confirmed)

theorem C8_witness:
  "is_blocked (alice\<lparr>is_blocked := True\<rparr>) \<and>
   SuperAdmin_can_create_user (alice\<lparr>is_blocked := True\<rparr>) OPERATOR = Inr True \<and>
   SuperAdmin_can_edit_user (alice\<lparr>is_blocked := True\<rparr>) bob = Inr True \<and>
   Operator_can_create_user (alice\<lparr>is_blocked := True\<rparr>) OPERATOR = Inr False \<and>
   Operator_can_read_user (alice\<lparr>is_blocked := True\<rparr>) bob = Inr False \<and>
   is_blocked bob \<and>
   Operator_can_edit_user bob bob = Inl UserIsNotConfirmedError"
proof -
  have a: "is_blocked (alice\<lparr>is_blocked := True\<rparr>)" by simp
  have b: "is_blocked bob" by (simp add: bob_def)
  have c: "is_confirmed (alice\<lparr>is_blocked := True\<rparr>)" "\<not> is_confirmed bob"
    "bob \<noteq> alice\<lparr>is_blocked := True\<rparr>"
    by (simp_all add: alice_def bob_def)
  show ?thesis
    using C8_blocked_actor_not_rejected [OF a, of OPERATOR bob]
      C8_blocked_actor_not_rejected [OF b, of OPERATOR bob] a b c
    by simp
qed

theorem C8_counterexample:
  "is_blocked (alice\<lparr>is_blocked := True\<rparr>) \<and>
   SuperAdmin_can_read_user (alice\<lparr>is_blocked := True\<rparr>) bob = Inr True \<and>
   SuperAdmin_can_read_user (alice\<lparr>is_blocked := True\<rparr>) bob \<noteq> Inl UserIsBlockedError"
  by (simp add: SuperAdmin_can_read_user_def user_check_confirmed alice_def)

section \<open>The sample configuration\<close>

lemmas sample_defs = sample_env_def sample_world_def alice_def bob_def carol_def dora_def
  erin_def eve_def creds_def ascii_lower_def

lemma sample_dpath:
  "dpath_value sample_env (creds e p) ''email'' = Inr e"
  "dpath_value sample_env (creds e p) ''password'' = Inr p"
  by (simp_all add: sample_env_def creds_def)

lemma sample_lower:
  "str_lower sample_env ''nobody@example.com'' = ''nobody@example.com''"
  "str_lower sample_env ''Alice@Example.com'' = ''alice@example.com''"
  "str_lower sample_env ''Dora@Example.com'' = ''dora@example.com''"
  "str_lower sample_env ''bob@example.com'' = ''bob@example.com''"
  "str_lower sample_env ''carol@example.com'' = ''carol@example.com''"
  "str_lower sample_env ''erin@example.com'' = ''erin@example.com''"
  "str_lower sample_env ''Eve@Example.com'' = ''eve@example.com''"
  by (simp_all add: sample_env_def ascii_lower_def)

lemma sample_query:
  "query_user_by_email sample_world ''nobody@example.com'' = None"
  "query_user_by_email sample_world ''alice@example.com'' = Some alice"
  "query_user_by_email sample_world ''dora@example.com'' = None"
  "query_user_by_email sample_world ''bob@example.com'' = Some bob"
  "query_user_by_email sample_world ''carol@example.com'' = Some carol"
  "query_user_by_email sample_world ''erin@example.com'' = Some erin"
  "query_user_by_email sample_world ''eve@example.com'' = None"
  by (simp_all add: query_user_by_email_def sample_world_def alice_def bob_def carol_def dora_def
      erin_def eve_def)

lemma sample_hash:
  "password_hash alice = Some ''new$secret-password''"
  "password_hash bob = Some ''old$123''"
  "password_hash carol = Some ''old$correct-horse''"
  "password_hash dora = Some ''new$battery-staple''"
  "password_hash erin = None"
  "password_hash eve = Some ''new$open-sesame''"
  by (simp_all add: alice_def bob_def carol_def dora_def erin_def eve_def)

lemma sample_hasher:
  "hasher_check sample_env ''guess'' ''new$secret-password'' = Inr (False, False)"
  "hasher_check sample_env ''secret-password'' ''new$secret-password'' = Inr (True, False)"
  "hasher_check sample_env ''battery-staple'' ''new$battery-staple'' = Inr (True, False)"
  "hasher_check sample_env ''123'' ''old$123'' = Inr (True, True)"
  "hasher_check sample_env ''correct-horse'' ''old$correct-horse'' = Inr (True, True)"
  "hasher_check sample_env ''open-sesame'' ''new$open-sesame'' = Inr (True, False)"
  by (simp_all add: sample_env_def)

lemma sample_validate:
  "validate_password sample_env ''123'' u = [''This password is too short.'']"
  "validate_password sample_env ''correct-horse'' u = []"
  by (simp_all add: sample_env_def)

lemma sample_session:
  "\<not> needs_rollback sample_world" "db_writable sample_world"
  "refresh_tokens sample_world = []"
  by (simp_all add: sample_world_def)

lemma sample_tokens:
  "jwt_encode sample_env (access_payload sample_env 0 (UUID s)) k a = s @ ''.short''"
  "jwt_encode sample_env (refresh_payload sample_env 0 (UUID s)) k a = s @ ''.long''"
  by (simp_all add: sample_env_def access_payload_def refresh_payload_def timedelta_minutes_def)

lemma sample_decode:
  "jwt_decode sample_env (ObjVal (PyStr ''a1.short'')) k a =
     Inr [(''user_id'', PyStr ''a1''), (''exp'', PyInt 259200)]"
  "jwt_decode sample_env (ObjVal (PyStr ''expired'')) k a = Inl ExpiredSignatureError"
  "jwt_decode sample_env (ObjVal (PyStr ''early'')) k a = Inl ImmatureSignatureError"
  "jwt_decode sample_env (ObjVal (PyStr ''garbage'')) k a = Inl DecodeError"
  by (simp_all add: sample_env_def)

lemma sample_token_read:
  "app_user_token (token_request t) =
     (Inr (ObjVal (PyStr t)),
      (token_request t)\<lparr>attrs := [''_app_user_token'' \<mapsto> ObjVal (PyStr t)]\<rparr>)"
  by (simp add: token_request_def new_request_def app_user_token_def descr_get_def
      get_user_token_from_headers_def)

section \<open>Token issuance\<close>

text \<open>
  C7. \<open>_create_token_pair\<close> encodes two payloads with exactly the claims \<open>user_id\<close>
  and \<open>exp\<close>. The expiry of the access token is the clock reading taken for it plus
  the configured \<open>access_token_timeout\<close> minutes, the expiry of the refresh token the
  reading taken for it plus the configured \<open>refresh_token_timeout\<close> minutes; both
  timeouts are the values of the settings members, whose defaults are 4320 and 43200.
\<close>

theorem C7_token_issuance:
  "create_token_pair env (t_access, t_refresh) uid =
     (jwt_encode env
        [(''user_id'', PyStr (str_uuid uid)),
         (''exp'', PyDateTime (t_access + timedelta_minutes (settings_val env access_token_timeout)))]
        (APP_JWT_SECRET_KEY env) ''HS256'',
      jwt_encode env
        [(''user_id'', PyStr (str_uuid uid)),
         (''exp'', PyDateTime (t_refresh + timedelta_minutes (settings_val env refresh_token_timeout)))]
        (APP_JWT_SECRET_KEY env) ''HS256'') \<and>
   create_token_pair (env\<lparr>settings_val := setting_default\<rparr>) (t_access, t_refresh) uid =
     (jwt_encode env
        [(''user_id'', PyStr (str_uuid uid)),
         (''exp'', PyDateTime (t_access + timedelta_minutes 4320))]
        (APP_JWT_SECRET_KEY env) ''HS256'',
      jwt_encode env
        [(''user_id'', PyStr (str_uuid uid)),
         (''exp'', PyDateTime (t_refresh + timedelta_minutes 43200))]
        (APP_JWT_SECRET_KEY env) ''HS256'') \<and>
   create_token_pair (env\<lparr>settings_val := (\<lambda>s. case s of access_token_timeout \<Rightarrow> m_access
                                               | refresh_token_timeout \<Rightarrow> m_refresh)\<rparr>)
       (t_access, t_refresh) uid =
     (jwt_encode env
        [(''user_id'', PyStr (str_uuid uid)),
         (''exp'', PyDateTime (t_access + m_access * 60 * 1000000))]
        (APP_JWT_SECRET_KEY env) ''HS256'',
      jwt_encode env
        [(''user_id'', PyStr (str_uuid uid)),
         (''exp'', PyDateTime (t_refresh + m_refresh * 60 * 1000000))]
        (APP_JWT_SECRET_KEY env) ''HS256'') \<and>
   setting_default access_token_timeout = 4320 \<and>
   setting_default refresh_token_timeout = 43200"
  by (simp add: create_token_pair_def access_payload_def refresh_payload_def
      APP_JWT_ALGORITHM_def timedelta_minutes_def)

section \<open>The password check\<close>

lemma object_session_hash [simp]:
  "object_session w (u\<lparr>password_hash := h\<rparr>) = object_session w u"
  by (simp add: object_session_def)

lemma object_session_rehashed [simp]:
  "object_session
     (w\<lparr>users := map (\<lambda>x. if user_id x = uid then x\<lparr>password_hash := h\<rparr> else x) (users w)\<rparr>) self =
   object_session w self"
proof -
  have "map user_id (map (\<lambda>x. if user_id x = uid then x\<lparr>password_hash := h\<rparr> else x) (users w)) =
        map user_id (users w)"
    by (induction "users w") auto
  then show ?thesis by (simp add: object_session_def)
qed

lemma after_failed_flush_id [simp]:
  "user_id (after_failed_flush w u) = user_id u"
  by (auto simp add: after_failed_flush_def find_Some_iff split: option.splits)

lemma check_password_unreadable:
  "needs_rollback w \<Longrightarrow> object_session w u \<Longrightarrow>
     check_password env u p w = (Inl PendingRollbackError, u, w)"
  by (simp add: check_password_def read_attr_def)

lemma check_password_true_readable:
  "fst (check_password env u p w) = Inr True \<Longrightarrow> \<not> (needs_rollback w \<and> object_session w u)"
  by (auto simp add: check_password_unreadable)

lemma check_password_null_hash:
  "password_hash u = None \<Longrightarrow> \<not> (needs_rollback w \<and> object_session w u) \<Longrightarrow>
     check_password env u (Some p) w = (Inl TypeError, u, w)"
  by (auto simp add: check_password_def read_attr_def django_check_password_def)

lemma check_password_wrong:
  "password_hash u = Some h \<Longrightarrow> hasher_check env p h = Inr (False, mu) \<Longrightarrow>
   \<not> (needs_rollback w \<and> object_session w u) \<Longrightarrow>
     check_password env u (Some p) w = (Inr False, u, w)"
  by (auto simp add: check_password_def read_attr_def django_check_password_def)

lemma check_password_current:
  "password_hash u = Some h \<Longrightarrow> hasher_check env p h = Inr (True, False) \<Longrightarrow>
   \<not> (needs_rollback w \<and> object_session w u) \<Longrightarrow>
     check_password env u (Some p) w = (Inr True, u, w)"
  by (auto simp add: check_password_def read_attr_def django_check_password_def)

lemma check_password_rehash_rejected:
  "password_hash u = Some h \<Longrightarrow> hasher_check env p h = Inr (True, True) \<Longrightarrow>
   validate_password env p u = m # ms \<Longrightarrow> \<not> (needs_rollback w \<and> object_session w u) \<Longrightarrow>
     check_password env u (Some p) w =
       (Inl (InvalidParamValueError ''Invalid password value'' (m # ms)), u,
        w\<lparr>log_records := log_records w @
             [LogRecord ''INFO'' ''User password is invalid. Details: '' (m # ms)]\<rparr>)"
  by (auto simp add: check_password_def read_attr_def django_check_password_def setter_def
      set_password_def)

text \<open>The state once \<open>set_password\<close> has put the new hash on the object.\<close>

lemma check_password_rehash_accepted_eq:
  assumes "password_hash u = Some h" and "hasher_check env p h = Inr (True, True)"
    and "validate_password env p u = []"
    and "\<not> (needs_rollback w \<and> object_session w u)"
  shows "check_password env u (Some p) w =
     (if object_session w u
      then (case session_commit
                   (w\<lparr>users := map (\<lambda>x. if user_id x = user_id u
                        then x\<lparr>password_hash := Some (make_password env p)\<rparr> else x) (users w)\<rparr>) of
              (None, w1) \<Rightarrow> (Inr True, u\<lparr>password_hash := Some (make_password env p)\<rparr>, w1)
            | (Some e, w1) \<Rightarrow>
                (Inr True,
                 after_failed_flush w1 (u\<lparr>password_hash := Some (make_password env p)\<rparr>), w1))
      else (Inr True, u\<lparr>password_hash := Some (make_password env p)\<rparr>,
            w\<lparr>users := map (\<lambda>x. if user_id x = user_id u
                        then x\<lparr>password_hash := Some (make_password env p)\<rparr> else x) (users w)\<rparr>))"
  using assms
  by (auto simp add: check_password_def read_attr_def django_check_password_def setter_def
      set_password_def Let_def split: prod.splits option.splits)

lemma check_password_rehash_accepted:
  assumes "password_hash u = Some h" and "hasher_check env p h = Inr (True, True)"
    and "validate_password env p u = []"
    and "\<not> (needs_rollback w \<and> object_session w u)"
  shows "fst (check_password env u (Some p) w) = Inr True"
    and "log_records (snd (snd (check_password env u (Some p) w))) = log_records w"
  by (auto simp add: check_password_rehash_accepted_eq [OF assms] session_commit_def
      flush_failed_def split: prod.splits option.splits)

lemma check_password_id:
  "check_password env u p w = (res, u1, w1) \<Longrightarrow> user_id u1 = user_id u"
  by (auto simp add: check_password_def read_attr_def django_check_password_def setter_def
      set_password_def Let_def
      split: sum.splits option.splits if_splits list.splits prod.splits)

lemma check_password_frame:
  assumes "check_password env u p w = (res, u1, w1)"
    and "db_writable w" and "distinct (map token_value (refresh_tokens w))"
  shows "refresh_tokens w1 = refresh_tokens w" and "db_writable w1 = db_writable w"
    and "needs_rollback w1 = needs_rollback w"
    and "is_confirmed u1 = is_confirmed u" and "is_blocked u1 = is_blocked u"
    and "email u1 = email u"
  using assms
  by (auto simp add: check_password_def read_attr_def django_check_password_def setter_def
      set_password_def session_commit_def Let_def
      split: sum.splits option.splits if_splits list.splits prod.splits)

text \<open>
  C9 (as the code has it). When the password is correct, the stored hash must be
  updated and \<open>set_password\<close> accepts the password, \<open>check_password\<close> returns
  \<open>True\<close> whatever becomes of the persistence step, and nothing is written to the
  log. On a detached object the failure of \<open>object_session\<close> is swallowed and the new
  hash is on the object only. On an object of a session, a commit that succeeds stores
  the new hash; a commit that fails is swallowed, stores nothing and leaves the session
  in need of a rollback.
\<close>

theorem C9_rehash_persistence_swallowed:
  assumes "password_hash self = Some h"
    and "hasher_check env raw h = Inr (True, True)"
    and "validate_password env raw self = []"
    and "\<not> (needs_rollback w \<and> object_session w self)"
  shows "fst (check_password env self (Some raw) w) = Inr True \<and>
         log_records (snd (snd (check_password env self (Some raw) w))) = log_records w \<and>
         (\<not> object_session w self \<longrightarrow>
            fst (snd (check_password env self (Some raw) w)) =
              self\<lparr>password_hash := Some (make_password env raw)\<rparr> \<and>
            committed_users (snd (snd (check_password env self (Some raw) w))) =
              committed_users w) \<and>
         (object_session w self \<and> db_writable w \<and>
          distinct (map token_value (refresh_tokens w)) \<longrightarrow>
            fst (snd (check_password env self (Some raw) w)) =
              self\<lparr>password_hash := Some (make_password env raw)\<rparr> \<and>
            committed_users (snd (snd (check_password env self (Some raw) w))) =
              map (\<lambda>x. if user_id x = user_id self
                       then x\<lparr>password_hash := Some (make_password env raw)\<rparr> else x)
                  (users w)) \<and>
         (object_session w self \<and>
          \<not> (db_writable w \<and> distinct (map token_value (refresh_tokens w))) \<longrightarrow>
            committed_users (snd (snd (check_password env self (Some raw) w))) =
              committed_users w \<and>
            needs_rollback (snd (snd (check_password env self (Some raw) w))))"
  using assms(4)
  by (auto simp add: check_password_rehash_accepted_eq [OF assms] session_commit_def
      flush_failed_def)

theorem C9_witness:
  "password_hash carol = Some ''old$correct-horse'' \<and>
   hasher_check sample_env ''correct-horse'' ''old$correct-horse'' = Inr (True, True) \<and>
   validate_password sample_env ''correct-horse'' carol = [] \<and>
   object_session (sample_world\<lparr>db_writable := False\<rparr>) carol \<and>
   \<not> db_writable (sample_world\<lparr>db_writable := False\<rparr>) \<and>
   fst (check_password sample_env carol (Some ''correct-horse'')
          (sample_world\<lparr>db_writable := False\<rparr>)) = Inr True \<and>
   log_records (snd (snd (check_password sample_env carol (Some ''correct-horse'')
          (sample_world\<lparr>db_writable := False\<rparr>)))) = [] \<and>
   committed_users (snd (snd (check_password sample_env carol (Some ''correct-horse'')
          (sample_world\<lparr>db_writable := False\<rparr>)))) = [alice, bob, carol, dora, erin, eve] \<and>
   needs_rollback (snd (snd (check_password sample_env carol (Some ''correct-horse'')
          (sample_world\<lparr>db_writable := False\<rparr>))))"
proof -
  let ?w = "sample_world\<lparr>db_writable := False\<rparr>"
  have os: "object_session ?w carol"
    by (simp add: object_session_def sample_world_def carol_def)
  have rd: "\<not> (needs_rollback ?w \<and> object_session ?w carol)"
    by (simp add: sample_world_def)
  have nw: "\<not> db_writable ?w" by simp
  show ?thesis
    using C9_rehash_persistence_swallowed [OF sample_hash(3) sample_hasher(5)
        sample_validate(2) rd] os nw sample_hash(3) sample_hasher(5) sample_validate(2) [of carol]
    by (simp add: sample_world_def)
qed

theorem C9_counterexample:
  "object_session (sample_world\<lparr>db_writable := False\<rparr>) carol \<and>
   fst (session_commit (sample_world\<lparr>db_writable := False\<rparr>)) =
     Some (DatabaseError ''OperationalError'') \<and>
   fst (check_password sample_env carol (Some ''correct-horse'')
          (sample_world\<lparr>db_writable := False\<rparr>)) = Inr True \<and>
   log_records (sample_world\<lparr>db_writable := False\<rparr>) = [] \<and>
   log_records (snd (snd (check_password sample_env carol (Some ''correct-horse'')
          (sample_world\<lparr>db_writable := False\<rparr>)))) = []"
proof -
  let ?w = "sample_world\<lparr>db_writable := False\<rparr>"
  have os: "object_session ?w carol"
    by (simp add: object_session_def sample_world_def carol_def)
  have rd: "\<not> (needs_rollback ?w \<and> object_session ?w carol)"
    by (simp add: sample_world_def)
  have sc: "fst (session_commit ?w) = Some (DatabaseError ''OperationalError'')"
    by (simp add: session_commit_def sample_world_def)
  have lg: "log_records ?w = []" by (simp add: sample_world_def)
  show ?thesis
    using check_password_rehash_accepted
      [OF sample_hash(3) sample_hasher(5) sample_validate(2) rd] os sc lg
    by simp
qed

section \<open>The email engine\<close>

lemma query_attached:
  "query_user_by_email w e = Some u \<Longrightarrow> object_session w u"
  by (auto simp add: query_user_by_email_def object_session_def find_Some_iff)

lemma authenticate_rolled_back_session:
  assumes "dpath_value env credentials ''email'' = Inr em"
    and "dpath_value env credentials ''password'' = Inr pw"
    and "needs_rollback w"
  shows "authenticate env clock w credentials = (Inl PendingRollbackError, w)"
  using assms by (simp add: authenticate_def get_info_def session_first_def Let_def)

lemma authenticate_not_found:
  assumes "dpath_value env credentials ''email'' = Inr em"
    and "dpath_value env credentials ''password'' = Inr pw"
    and "\<not> needs_rollback w"
    and "query_user_by_email w (str_lower env em) = None"
  shows "authenticate env clock w credentials =
           (Inl (AuthCredentialsInvalid (Some invalid_message)), w)"
  using assms by (simp add: authenticate_def get_info_def session_first_def Let_def)

lemma authenticate_found:
  assumes "dpath_value env credentials ''email'' = Inr em"
    and "dpath_value env credentials ''password'' = Inr pw"
    and "\<not> needs_rollback w"
    and "query_user_by_email w (str_lower env em) = Some u"
  shows "authenticate env clock w credentials =
     (case check_password env u (Some pw) w of
        (Inl e, u1, w1) \<Rightarrow> (Inl e, w1)
      | (Inr False, u1, w1) \<Rightarrow> (Inl (AuthCredentialsInvalid (Some invalid_message)), w1)
      | (Inr True, u1, w1) \<Rightarrow>
          (case read_attr w1 u1 user_id of
             Inl e \<Rightarrow> (Inl e, w1)
           | Inr uid \<Rightarrow>
               (case session_commit
                       (session_add \<lparr>token_value = snd (create_token_pair env clock uid),
                                     token_user_id = uid\<rparr> w1) of
                  (Some e, w3) \<Rightarrow> (Inl e, w3)
                | (None, w3) \<Rightarrow>
                    (Inr (fst (create_token_pair env clock uid),
                          snd (create_token_pair env clock uid), u1), w3))))"
  using assms
  by (simp add: authenticate_def get_info_def session_first_def Let_def
      split: prod.splits sum.splits bool.splits option.splits)

lemma commit_added_token:
  assumes "\<not> needs_rollback w" and "db_writable w"
    and "distinct (map token_value (refresh_tokens w))"
    and "token_value t \<notin> set (map token_value (refresh_tokens w))"
  shows "session_commit (session_add t w) =
           (None, w\<lparr>refresh_tokens := refresh_tokens w @ [t],
                    committed_users := users w,
                    committed_refresh_tokens := refresh_tokens w @ [t]\<rparr>)"
  using assms by (simp add: session_commit_def session_add_def)

lemma authenticate_accepted:
  assumes em: "dpath_value env credentials ''email'' = Inr em"
    and pw: "dpath_value env credentials ''password'' = Inr pw"
    and q: "query_user_by_email w (str_lower env em) = Some u"
    and cp: "fst (check_password env u (Some pw) w) = Inr True"
    and wr: "db_writable w"
    and di: "distinct (map token_value (refresh_tokens w))"
    and fr: "snd (create_token_pair env clock (user_id u)) \<notin> set (map token_value (refresh_tokens w))"
  shows "\<exists>u1 w3. authenticate env clock w credentials =
            (Inr (fst (create_token_pair env clock (user_id u)),
                  snd (create_token_pair env clock (user_id u)), u1), w3) \<and>
          user_id u1 = user_id u \<and> is_confirmed u1 = is_confirmed u \<and>
          is_blocked u1 = is_blocked u \<and>
          refresh_tokens w3 = refresh_tokens w @
            [\<lparr>token_value = snd (create_token_pair env clock (user_id u)),
              token_user_id = user_id u\<rparr>] \<and>
          committed_refresh_tokens w3 = refresh_tokens w3"
proof -
  have nr: "\<not> needs_rollback w"
    using check_password_true_readable [OF cp] query_attached [OF q] by simp
  obtain res u1 w1 where c: "check_password env u (Some pw) w = (res, u1, w1)"
    by (cases "check_password env u (Some pw) w") auto
  from cp c have res: "res = Inr True" by simp
  note fra = check_password_frame [OF c wr di]
  note uid = check_password_id [OF c]
  have nr1: "\<not> needs_rollback w1" using fra(3) nr by simp
  have ra: "read_attr w1 u1 user_id = Inr (user_id u)"
    using nr1 uid by (simp add: read_attr_def)
  let ?t = "\<lparr>token_value = snd (create_token_pair env clock (user_id u)),
              token_user_id = user_id u\<rparr>"
  have "session_commit (session_add ?t w1) =
          (None, w1\<lparr>refresh_tokens := refresh_tokens w1 @ [?t],
                  committed_users := users w1,
                  committed_refresh_tokens := refresh_tokens w1 @ [?t]\<rparr>)"
    by (rule commit_added_token) (use fra wr di fr nr1 in simp_all)
  then show ?thesis
    using authenticate_found [OF em pw nr q, of clock] c res fra uid ra by simp
qed

text \<open>
  The primary key of \<open>app_refresh_token\<close> is the token itself: when the session already
  holds a refresh token of the value being issued (the same user, the same expiry), the
  commit fails and so does \<open>authenticate\<close>.
\<close>

lemma authenticate_duplicate_token:
  assumes em: "dpath_value env credentials ''email'' = Inr em"
    and pw: "dpath_value env credentials ''password'' = Inr pw"
    and q: "query_user_by_email w (str_lower env em) = Some u"
    and cp: "fst (check_password env u (Some pw) w) = Inr True"
    and wr: "db_writable w"
    and di: "distinct (map token_value (refresh_tokens w))"
    and du: "snd (create_token_pair env clock (user_id u)) \<in> set (map token_value (refresh_tokens w))"
  shows "fst (authenticate env clock w credentials) = Inl (DatabaseError ''IntegrityError'')"
proof -
  have nr: "\<not> needs_rollback w"
    using check_password_true_readable [OF cp] query_attached [OF q] by simp
  obtain res u1 w1 where c: "check_password env u (Some pw) w = (res, u1, w1)"
    by (cases "check_password env u (Some pw) w") auto
  from cp c have res: "res = Inr True" by simp
  note fra = check_password_frame [OF c wr di]
  note uid = check_password_id [OF c]
  have nr1: "\<not> needs_rollback w1" using fra(3) nr by simp
  have ra: "read_attr w1 u1 user_id = Inr (user_id u)"
    using nr1 uid by (simp add: read_attr_def)
  let ?t = "\<lparr>token_value = snd (create_token_pair env clock (user_id u)),
              token_user_id = user_id u\<rparr>"
  have "fst (session_commit (session_add ?t w1)) = Some (DatabaseError ''IntegrityError'')"
    using fra(1,2) wr du nr1 by (simp add: session_commit_def session_add_def)
  then show ?thesis
    using authenticate_found [OF em pw nr q, of clock] c res ra
    by (auto split: prod.splits option.splits)
qed

lemma authenticate_twice_same_clock:
  "fst (authenticate sample_env (0, 0) sample_world (creds ''Alice@Example.com'' ''secret-password'')) =
     Inr (''a1.short'', ''a1.long'', alice) \<and>
   fst (authenticate sample_env (0, 0)
          (snd (authenticate sample_env (0, 0) sample_world
                  (creds ''Alice@Example.com'' ''secret-password'')))
          (creds ''Alice@Example.com'' ''secret-password'')) =
     Inl (DatabaseError ''IntegrityError'')"
proof -
  let ?c = "creds ''Alice@Example.com'' ''secret-password''"
  have q: "query_user_by_email sample_world (str_lower sample_env ''Alice@Example.com'') = Some alice"
    by (simp add: sample_lower sample_query)
  have cp: "check_password sample_env alice (Some ''secret-password'') w = (Inr True, alice, w)"
    if "\<not> needs_rollback w" for w
    using that by (simp add: check_password_current [OF sample_hash(1) sample_hasher(2)])
  have tk: "create_token_pair sample_env (0, 0) (user_id alice) = (''a1.short'', ''a1.long'')"
    by (simp add: create_token_pair_def sample_tokens alice_def)
  let ?w1 = "sample_world\<lparr>refresh_tokens := [\<lparr>token_value = ''a1.long'', token_user_id = user_id alice\<rparr>],
      committed_refresh_tokens := [\<lparr>token_value = ''a1.long'', token_user_id = user_id alice\<rparr>]\<rparr>"
  have first: "authenticate sample_env (0, 0) sample_world ?c =
      (Inr (''a1.short'', ''a1.long'', alice), ?w1)"
    using authenticate_found [OF sample_dpath(1) sample_dpath(2) sample_session(1) q, of "(0, 0)"]
    by (simp add: cp sample_session tk read_attr_def session_commit_def session_add_def
        sample_world_def)
  have q2: "query_user_by_email ?w1 (str_lower sample_env ''Alice@Example.com'') = Some alice"
    using q by (simp add: query_user_by_email_def)
  have "fst (authenticate sample_env (0, 0) ?w1 ?c) = Inl (DatabaseError ''IntegrityError'')"
    by (rule authenticate_duplicate_token [OF sample_dpath(1) sample_dpath(2) q2])
       (simp_all add: cp tk sample_world_def)
  then show ?thesis by (simp add: first)
qed

text \<open>
  When the commit of the new hash has failed and been swallowed, the user object is
  expired in a session that needs a rollback: \<open>check_password\<close> has returned \<open>True\<close>,
  and reading \<open>user.user_id\<close> raises.
\<close>

lemma authenticate_after_failed_rehash:
  "fst (authenticate sample_env (0, 0) (sample_world\<lparr>db_writable := False\<rparr>)
          (creds ''carol@example.com'' ''correct-horse'')) = Inl PendingRollbackError"
proof -
  let ?w = "sample_world\<lparr>db_writable := False\<rparr>"
  have q: "query_user_by_email ?w (str_lower sample_env ''carol@example.com'') = Some carol"
    using sample_query(5) by (simp add: sample_lower query_user_by_email_def)
  have nr: "\<not> needs_rollback ?w" by (simp add: sample_world_def)
  have rd: "\<not> (needs_rollback ?w \<and> object_session ?w carol)" using nr by simp
  have os: "object_session ?w carol" by (rule query_attached [OF q])
  have cp: "check_password sample_env carol (Some ''correct-horse'') ?w =
      (Inr True, carol, flush_failed ?w)"
    using check_password_rehash_accepted_eq
      [OF sample_hash(3) sample_hasher(5) sample_validate(2) rd] os
    by (simp add: session_commit_def flush_failed_def after_failed_flush_def sample_world_def
        alice_def bob_def carol_def dora_def erin_def eve_def)
  have ra: "read_attr (flush_failed ?w) carol user_id = Inl PendingRollbackError"
    by (simp add: read_attr_def flush_failed_def object_session_def sample_world_def carol_def)
  show ?thesis
    using authenticate_found [OF sample_dpath(1) sample_dpath(2) nr q, of "(0, 0)"]
    by (simp add: cp ra)
qed

text \<open>
  With credentials that carry an email and a password, on a session that is usable,
  \<open>authenticate\<close> fails with the same exception, \<open>AuthCredentialsInvalid\<close> with the
  same message, and leaves the state as it was, both when the lowercased email matches no
  stored user and when it matches a user who has a stored hash and that hash does not
  verify the password.
\<close>

lemma authenticate_same_invalid_credentials:
  assumes "dpath_value env credentials ''email'' = Inr em"
    and "dpath_value env credentials ''password'' = Inr pw"
    and "\<not> needs_rollback w"
    and "query_user_by_email w (str_lower env em) = None \<or>
         (\<exists>u h mu. query_user_by_email w (str_lower env em) = Some u \<and>
                 password_hash u = Some h \<and> hasher_check env pw h = Inr (False, mu))"
  shows "authenticate env clock w credentials =
           (Inl (AuthCredentialsInvalid (Some ''User password or email is not valid'')), w)"
proof -
  from assms(4) show ?thesis
  proof
    assume "query_user_by_email w (str_lower env em) = None"
    then show ?thesis
      using authenticate_not_found [OF assms(1,2,3)] by (simp add: invalid_message_def)
  next
    assume "\<exists>u h mu. query_user_by_email w (str_lower env em) = Some u \<and>
                 password_hash u = Some h \<and> hasher_check env pw h = Inr (False, mu)"
    then obtain u h mu where q: "query_user_by_email w (str_lower env em) = Some u"
      and s: "password_hash u = Some h"
      and h: "hasher_check env pw h = Inr (False, mu)" by blast
    have rd: "\<not> (needs_rollback w \<and> object_session w u)" using assms(3) by simp
    show ?thesis
      using authenticate_found [OF assms(1,2,3) q, of clock] check_password_wrong [OF s h rd]
      by (simp add: invalid_message_def)
  qed
qed

text \<open>
  The column \<open>password_hash\<close> is nullable and \<open>check_password\<close> hands it to Django's
  \<open>check_password\<close> as it is (\<open>change_password\<close> tests it for \<open>None\<close> first): for a
  stored user without a hash \<open>authenticate\<close> raises \<open>TypeError\<close>.
\<close>

lemma authenticate_null_hash:
  assumes "dpath_value env credentials ''email'' = Inr em"
    and "dpath_value env credentials ''password'' = Inr pw"
    and "\<not> needs_rollback w"
    and "query_user_by_email w (str_lower env em) = Some u"
    and "password_hash u = None"
  shows "authenticate env clock w credentials = (Inl TypeError, w)"
proof -
  have rd: "\<not> (needs_rollback w \<and> object_session w u)" using assms(3) by simp
  show ?thesis
    using authenticate_found [OF assms(1,2,3,4), of clock] check_password_null_hash [OF assms(5) rd]
    by simp
qed

text \<open>
  C1 (a defect of the code). \<open>erin\<close> is a stored user whose \<open>password_hash\<close> is
  \<open>NULL\<close>. With her email and any password \<open>authenticate\<close> raises \<open>TypeError\<close>,
  while for an email that no user has, and for the email of \<open>alice\<close> with a wrong
  password, it raises \<open>AuthCredentialsInvalid\<close> with the one message: the caller tells
  the known email from the unknown one.
\<close>

theorem C1_null_hash_distinguishable:
  "query_user_by_email sample_world (str_lower sample_env ''erin@example.com'') = Some erin \<and>
   password_hash erin = None \<and>
   authenticate sample_env (0, 0) sample_world (creds ''erin@example.com'' ''guess'') =
     (Inl TypeError, sample_world) \<and>
   query_user_by_email sample_world (str_lower sample_env ''nobody@example.com'') = None \<and>
   authenticate sample_env (0, 0) sample_world (creds ''nobody@example.com'' ''guess'') =
     (Inl (AuthCredentialsInvalid (Some ''User password or email is not valid'')), sample_world) \<and>
   query_user_by_email sample_world (str_lower sample_env ''Alice@Example.com'') = Some alice \<and>
   authenticate sample_env (0, 0) sample_world (creds ''Alice@Example.com'' ''guess'') =
     (Inl (AuthCredentialsInvalid (Some ''User password or email is not valid'')), sample_world)"
proof -
  have e: "query_user_by_email sample_world (str_lower sample_env ''erin@example.com'') = Some erin"
    by (simp add: sample_lower sample_query)
  have n: "query_user_by_email sample_world (str_lower sample_env ''nobody@example.com'') = None"
    by (simp add: sample_lower sample_query)
  have a: "query_user_by_email sample_world (str_lower sample_env ''Alice@Example.com'') = Some alice"
    by (simp add: sample_lower sample_query)
  have a2: "\<exists>u h mu. query_user_by_email sample_world (str_lower sample_env ''Alice@Example.com'') = Some u \<and>
      password_hash u = Some h \<and> hasher_check sample_env ''guess'' h = Inr (False, mu)"
    using a sample_hash(1) sample_hasher(1) by blast
  have 1: "authenticate sample_env (0, 0) sample_world (creds ''erin@example.com'' ''guess'') =
     (Inl TypeError, sample_world)"
    by (rule authenticate_null_hash [OF sample_dpath(1) sample_dpath(2) sample_session(1) e
          sample_hash(5)])
  have 2: "authenticate sample_env (0, 0) sample_world (creds ''nobody@example.com'' ''guess'') =
     (Inl (AuthCredentialsInvalid (Some ''User password or email is not valid'')), sample_world)"
    by (rule authenticate_same_invalid_credentials
          [OF sample_dpath(1) sample_dpath(2) sample_session(1)]) (simp add: n)
  have 3: "authenticate sample_env (0, 0) sample_world (creds ''Alice@Example.com'' ''guess'') =
     (Inl (AuthCredentialsInvalid (Some ''User password or email is not valid'')), sample_world)"
    by (rule authenticate_same_invalid_credentials
          [OF sample_dpath(1) sample_dpath(2) sample_session(1)]) (use a2 in blast)
  show ?thesis using e n a sample_hash(5) 1 2 3 by simp
qed

text \<open>
  C2 (as the code has it). For every stored confirmed user that the query by the
  lowercased supplied email returns and whose \<open>check_password\<close> accepts the supplied
  password, when the database accepts the commit and holds no refresh token of the value
  being issued, \<open>authenticate\<close> returns the access token, the refresh token and the
  user; the access token encodes a payload whose \<open>user_id\<close> is the text of the user's
  id; the session and the database then hold the former refresh tokens and one new
  record, with the returned refresh token as value and the user's id, and no other record
  has that value.
\<close>

theorem C2_authenticate_success:
  assumes "dpath_value env credentials ''email'' = Inr em"
    and "dpath_value env credentials ''password'' = Inr pw"
    and "query_user_by_email w (str_lower env em) = Some u"
    and "is_confirmed u"
    and "fst (check_password env u (Some pw) w) = Inr True"
    and "db_writable w"
    and "distinct (map token_value (refresh_tokens w))"
    and "jwt_encode env (refresh_payload env (snd clock) (user_id u))
           (APP_JWT_SECRET_KEY env) APP_JWT_ALGORITHM \<notin> set (map token_value (refresh_tokens w))"
  shows "\<exists>access_token refresh_token u1 w1.
           authenticate env clock w credentials = (Inr (access_token, refresh_token, u1), w1) \<and>
           user_id u1 = user_id u \<and>
           access_token = jwt_encode env (access_payload env (fst clock) (user_id u))
                            (APP_JWT_SECRET_KEY env) APP_JWT_ALGORITHM \<and>
           map_of (access_payload env (fst clock) (user_id u)) ''user_id'' =
             Some (PyStr (str_uuid (user_id u))) \<and>
           refresh_token = jwt_encode env (refresh_payload env (snd clock) (user_id u))
                             (APP_JWT_SECRET_KEY env) APP_JWT_ALGORITHM \<and>
           refresh_tokens w1 = refresh_tokens w @
             [\<lparr>token_value = refresh_token, token_user_id = user_id u\<rparr>] \<and>
           committed_refresh_tokens w1 = refresh_tokens w1 \<and>
           filter (\<lambda>t. token_value t = refresh_token) (committed_refresh_tokens w1) =
             [\<lparr>token_value = refresh_token, token_user_id = user_id u\<rparr>]"
proof -
  let ?r = "snd (create_token_pair env clock (user_id u))"
  have r: "?r = jwt_encode env (refresh_payload env (snd clock) (user_id u))
           (APP_JWT_SECRET_KEY env) APP_JWT_ALGORITHM"
    by (simp add: create_token_pair_def Let_def)
  have a: "fst (create_token_pair env clock (user_id u)) =
      jwt_encode env (access_payload env (fst clock) (user_id u))
           (APP_JWT_SECRET_KEY env) APP_JWT_ALGORITHM"
    by (simp add: create_token_pair_def Let_def)
  have fr: "?r \<notin> set (map token_value (refresh_tokens w))" using assms(8) r by simp
  from authenticate_accepted [OF assms(1,2,3,5,6,7) fr]
  obtain u1 w3 where res: "authenticate env clock w credentials =
      (Inr (fst (create_token_pair env clock (user_id u)), ?r, u1), w3)"
    and uid: "user_id u1 = user_id u"
    and rt: "refresh_tokens w3 = refresh_tokens w @ [\<lparr>token_value = ?r, token_user_id = user_id u\<rparr>]"
    and ct: "committed_refresh_tokens w3 = refresh_tokens w3"
    by blast
  have none: "filter (\<lambda>t. token_value t = ?r) (refresh_tokens w) = []"
    using fr by (force simp add: filter_empty_conv)
  have one: "filter (\<lambda>t. token_value t = ?r) (committed_refresh_tokens w3) =
      [\<lparr>token_value = ?r, token_user_id = user_id u\<rparr>]"
    by (simp add: ct rt none)
  have m: "map_of (access_payload env (fst clock) (user_id u)) ''user_id'' =
             Some (PyStr (str_uuid (user_id u)))"
    by (simp add: access_payload_def)
  show ?thesis using res uid rt ct one m a r by simp
qed

theorem C2_witness:
  "\<exists>u1 w1.
     authenticate sample_env (0, 0) sample_world (creds ''Alice@Example.com'' ''secret-password'') =
       (Inr (''a1.short'', ''a1.long'', u1), w1) \<and>
     user_id u1 = UUID ''a1'' \<and>
     committed_refresh_tokens w1 = [\<lparr>token_value = ''a1.long'', token_user_id = UUID ''a1''\<rparr>]"
proof -
  have q: "query_user_by_email sample_world (str_lower sample_env ''Alice@Example.com'') = Some alice"
    by (simp add: sample_lower sample_query)
  have c: "is_confirmed alice" by (simp add: alice_def)
  have cp: "fst (check_password sample_env alice (Some ''secret-password'') sample_world) = Inr True"
    by (simp add: check_password_current [OF sample_hash(1) sample_hasher(2)] sample_session)
  have wr: "db_writable sample_world" by (simp add: sample_world_def)
  have di: "distinct (map token_value (refresh_tokens sample_world))" by (simp add: sample_world_def)
  have fr: "jwt_encode sample_env (refresh_payload sample_env (snd (0, 0)) (user_id alice))
           (APP_JWT_SECRET_KEY sample_env) APP_JWT_ALGORITHM
           \<notin> set (map token_value (refresh_tokens sample_world))"
    by (simp add: sample_world_def)
  have uid: "user_id alice = UUID ''a1''" by (simp add: alice_def)
  have rt: "refresh_tokens sample_world = []" by (simp add: sample_world_def)
  show ?thesis
    using C2_authenticate_success [OF sample_dpath(1) sample_dpath(2) q c cp wr di fr]
    by (auto simp add: uid rt sample_tokens)
qed

theorem C2_counterexample:
  "dora \<in> set (users sample_world) \<and> is_confirmed dora \<and>
   email dora = Some ''Dora@Example.com'' \<and>
   password_hash dora = Some ''new$battery-staple'' \<and>
   hasher_check sample_env ''battery-staple'' ''new$battery-staple'' = Inr (True, False) \<and>
   authenticate sample_env (0, 0) sample_world (creds ''Dora@Example.com'' ''battery-staple'') =
     (Inl (AuthCredentialsInvalid (Some ''User password or email is not valid'')), sample_world)"
proof -
  have q: "query_user_by_email sample_world (str_lower sample_env ''Dora@Example.com'') = None"
    by (simp add: sample_lower sample_query)
  have "dora \<in> set (users sample_world)" by (simp add: sample_world_def)
  moreover have "is_confirmed dora" "email dora = Some ''Dora@Example.com''"
    by (simp_all add: dora_def)
  ultimately show ?thesis
    using authenticate_not_found [OF sample_dpath(1) sample_dpath(2) sample_session(1) q, of "(0, 0)"]
      sample_hasher(3) sample_hash(4)
    by (simp add: invalid_message_def)
qed

text \<open>Changing the two flags of the stored users commutes with every step of \<open>authenticate\<close>.\<close>

lemma reflag_simps:
  "user_id (reflag f x) = user_id x" "email (reflag f x) = email x"
  "password_hash (reflag f x) = password_hash x"
  "reflag f (x\<lparr>password_hash := h\<rparr>) = (reflag f x)\<lparr>password_hash := h\<rparr>"
  by (simp_all add: reflag_def)

lemma reflag_world_simps:
  "needs_rollback (reflag_world f w) = needs_rollback w"
  "db_writable (reflag_world f w) = db_writable w"
  "refresh_tokens (reflag_world f w) = refresh_tokens w"
  "users (reflag_world f w) = map (reflag f) (users w)"
  by (simp_all add: reflag_world_def)

lemma find_reflag:
  "find (\<lambda>u. email u = Some e) (map (reflag f) us) =
   map_option (reflag f) (find (\<lambda>u. email u = Some e) us)"
  by (induction us) (simp_all add: reflag_simps)

lemma find_id_reflag:
  "find (\<lambda>x. user_id x = i) (map (reflag f) us) =
   map_option (reflag f) (find (\<lambda>x. user_id x = i) us)"
  by (induction us) (simp_all add: reflag_simps)

lemma query_reflag:
  "query_user_by_email (reflag_world f w) e = map_option (reflag f) (query_user_by_email w e)"
  by (simp add: query_user_by_email_def reflag_world_def find_reflag)

lemma rehash_reflag:
  "map (\<lambda>x. if user_id x = uid then x\<lparr>password_hash := h\<rparr> else x) (map (reflag f) us) =
   map (reflag f) (map (\<lambda>x. if user_id x = uid then x\<lparr>password_hash := h\<rparr> else x) us)"
  by (induction us) (simp_all add: reflag_simps)

lemma flush_failed_reflag:
  "flush_failed (reflag_world f w) = reflag_world f (flush_failed w)"
  by (simp add: flush_failed_def reflag_world_def)

lemma session_commit_reflag:
  "session_commit (reflag_world f w) =
     (case session_commit w of (r, w1) \<Rightarrow> (r, reflag_world f w1))"
  by (simp add: session_commit_def flush_failed_reflag reflag_world_simps)
     (simp add: reflag_world_def)

lemma object_session_reflag:
  "object_session (reflag_world f w) (reflag f u) = object_session w u"
  by (simp add: object_session_def reflag_world_def reflag_simps comp_def)

lemma read_attr_reflag:
  "read_attr (reflag_world f w) (reflag f u) user_id = read_attr w u user_id"
  "read_attr (reflag_world f w) (reflag f u) password_hash = read_attr w u password_hash"
  by (simp_all add: read_attr_def object_session_reflag reflag_world_simps reflag_simps)

lemma after_failed_flush_reflag:
  "after_failed_flush (reflag_world f w) (reflag f u) = reflag f (after_failed_flush w u)"
  by (simp add: after_failed_flush_def reflag_world_simps reflag_simps find_id_reflag
      split: option.splits)

lemma set_password_reflag:
  assumes "\<And>p x. validate_password env p (reflag f x) = validate_password env p x"
  shows "set_password env p (reflag f u, reflag_world f w) =
     (case set_password env p (u, w) of (r, u1, w1) \<Rightarrow> (r, reflag f u1, reflag_world f w1))"
  by (simp add: set_password_def assms reflag_simps reflag_world_def rehash_reflag Let_def
      split: list.splits)

lemma setter_reflag:
  assumes "\<And>p x. validate_password env p (reflag f x) = validate_password env p x"
  shows "setter env p (reflag f u, reflag_world f w) =
     (case setter env p (u, w) of (r, u1, w1) \<Rightarrow> (r, reflag f u1, reflag_world f w1))"
  by (simp add: setter_def set_password_reflag [OF assms] object_session_reflag
      session_commit_reflag after_failed_flush_reflag split: prod.splits option.splits)

lemma check_password_reflag:
  assumes "\<And>p x. validate_password env p (reflag f x) = validate_password env p x"
  shows "check_password env (reflag f u) p (reflag_world f w) =
     (case check_password env u p w of (r, u1, w1) \<Rightarrow> (r, reflag f u1, reflag_world f w1))"
  by (simp add: check_password_def django_check_password_def setter_reflag [OF assms]
      read_attr_reflag split: prod.splits option.splits sum.splits)

lemma get_info_reflag:
  "get_info env (reflag_world f w) credentials b =
     (case get_info env w credentials b of
        Inl e \<Rightarrow> Inl e
      | Inr (e, p, found) \<Rightarrow> Inr (e, p, map_option (reflag f) found))"
  by (simp add: get_info_def query_reflag session_first_def reflag_world_simps Let_def
      split: sum.splits)

lemma session_add_reflag:
  "session_add t (reflag_world f w) = reflag_world f (session_add t w)"
  by (simp add: session_add_def reflag_world_def)

lemma authenticate_reflag:
  assumes "\<And>p x. validate_password env p (reflag f x) = validate_password env p x"
  shows "authenticate env clock (reflag_world f w) credentials =
     (case authenticate env clock w credentials of
        (Inl e, w1) \<Rightarrow> (Inl e, reflag_world f w1)
      | (Inr (a, r, u1), w1) \<Rightarrow> (Inr (a, r, reflag f u1), reflag_world f w1))"
proof (cases "get_info env w credentials True")
  case (Inl e)
  then show ?thesis by (simp add: authenticate_def get_info_reflag)
next
  case (Inr t)
  obtain e p found where t: "t = (e, p, found)" by (cases t) auto
  show ?thesis
  proof (cases found)
    case None
    then show ?thesis using Inr t by (simp add: authenticate_def get_info_reflag)
  next
    case (Some u)
    obtain res u1 w1 where c: "check_password env u p w = (res, u1, w1)"
      by (cases "check_password env u p w") auto
    have c': "check_password env (reflag f u) p (reflag_world f w) =
        (res, reflag f u1, reflag_world f w1)"
      by (simp add: check_password_reflag [OF assms] c)
    show ?thesis
    proof (cases res)
      case (Inl err)
      then show ?thesis using Inr t Some c c' by (simp add: authenticate_def get_info_reflag)
    next
      case (Inr ok)
      note res = this
      show ?thesis
      proof (cases ok)
        case False
        then show ?thesis
          using \<open>get_info env w credentials True = Inr t\<close> t Some c c' res
          by (simp add: authenticate_def get_info_reflag)
      next
        case True
        note ok = this
        show ?thesis
        proof (cases "read_attr w1 u1 user_id")
          case (Inl err)
          then show ?thesis
            using \<open>get_info env w credentials True = Inr t\<close> t Some c c' res ok
            by (simp add: authenticate_def get_info_reflag read_attr_reflag)
        next
          case (Inr uid)
          let ?tok = "\<lparr>token_value = snd (create_token_pair env clock uid),
                       token_user_id = uid\<rparr>"
          show ?thesis
            using \<open>get_info env w credentials True = Inr t\<close> t Some c c' res ok Inr
            by (cases "session_commit (session_add ?tok w1)")
               (simp_all add: authenticate_def get_info_reflag Let_def reflag_simps
                  read_attr_reflag session_add_reflag session_commit_reflag
                  split: option.splits)
        qed
      qed
    qed
  qed
qed

text \<open>
  C10 (as the code has it). \<open>authenticate\<close> reads neither \<open>is_blocked\<close> nor
  \<open>is_confirmed\<close>. First, giving the stored users any other values of the two flags
  changes nothing in what \<open>authenticate\<close> does but the flags of the users in the state
  and of the user returned (the password validators being the only code that is handed
  the user, they are taken not to look at the flags). Second, whatever the two flags of
  the stored user are, when the query by the lowercased supplied email returns the user,
  \<open>check_password\<close> accepts the supplied password and the database accepts the new
  refresh token, \<open>authenticate\<close> succeeds with the token pair of
  \<open>_create_token_pair\<close> and returns the user with the flags unchanged.
\<close>

theorem C10_flags_not_consulted:
  "((\<forall>p x. validate_password env p (reflag f x) = validate_password env p x) \<longrightarrow>
      authenticate env clock (reflag_world f w) credentials =
        (case authenticate env clock w credentials of
           (Inl e, w1) \<Rightarrow> (Inl e, reflag_world f w1)
         | (Inr (a, r, u1), w1) \<Rightarrow> (Inr (a, r, reflag f u1), reflag_world f w1))) \<and>
   (dpath_value env credentials ''email'' = Inr em \<and>
    dpath_value env credentials ''password'' = Inr pw \<and>
    query_user_by_email w (str_lower env em) = Some (u\<lparr>is_confirmed := c, is_blocked := b\<rparr>) \<and>
    fst (check_password env (u\<lparr>is_confirmed := c, is_blocked := b\<rparr>) (Some pw) w) = Inr True \<and>
    db_writable w \<and>
    distinct (map token_value (refresh_tokens w)) \<and>
    snd (create_token_pair env clock (user_id u)) \<notin> set (map token_value (refresh_tokens w)) \<longrightarrow>
      (\<exists>u1 w1. authenticate env clock w credentials =
            (Inr (fst (create_token_pair env clock (user_id u)),
                  snd (create_token_pair env clock (user_id u)), u1), w1) \<and>
          user_id u1 = user_id u \<and> is_confirmed u1 = c \<and> is_blocked u1 = b))"
proof (intro conjI impI)
  assume "\<forall>p x. validate_password env p (reflag f x) = validate_password env p x"
  then show "authenticate env clock (reflag_world f w) credentials =
        (case authenticate env clock w credentials of
           (Inl e, w1) \<Rightarrow> (Inl e, reflag_world f w1)
         | (Inr (a, r, u1), w1) \<Rightarrow> (Inr (a, r, reflag f u1), reflag_world f w1))"
    by (intro authenticate_reflag) simp
next
  let ?u = "u\<lparr>is_confirmed := c, is_blocked := b\<rparr>"
  assume h: "dpath_value env credentials ''email'' = Inr em \<and>
    dpath_value env credentials ''password'' = Inr pw \<and>
    query_user_by_email w (str_lower env em) = Some ?u \<and>
    fst (check_password env ?u (Some pw) w) = Inr True \<and>
    db_writable w \<and>
    distinct (map token_value (refresh_tokens w)) \<and>
    snd (create_token_pair env clock (user_id u)) \<notin> set (map token_value (refresh_tokens w))"
  then have fr: "snd (create_token_pair env clock (user_id ?u)) \<notin>
      set (map token_value (refresh_tokens w))"
    by simp
  from h authenticate_accepted [of env credentials em pw w ?u clock, OF _ _ _ _ _ _ fr]
  show "\<exists>u1 w1. authenticate env clock w credentials =
            (Inr (fst (create_token_pair env clock (user_id u)),
                  snd (create_token_pair env clock (user_id u)), u1), w1) \<and>
          user_id u1 = user_id u \<and> is_confirmed u1 = c \<and> is_blocked u1 = b"
    by auto
qed

theorem C10_witness:
  "is_blocked carol \<and> \<not> is_confirmed carol \<and>
   (\<exists>u1 w1. authenticate sample_env (0, 0) sample_world (creds ''carol@example.com'' ''correct-horse'') =
      (Inr (''c3.short'', ''c3.long'', u1), w1) \<and>
      user_id u1 = UUID ''c3'' \<and> \<not> is_confirmed u1 \<and> is_blocked u1) \<and>
   fst (authenticate sample_env (0, 0) (reflag_world (\<lambda>i. (False, True)) sample_world)
          (creds ''Alice@Example.com'' ''secret-password'')) =
     Inr (''a1.short'', ''a1.long'', alice\<lparr>is_confirmed := False, is_blocked := True\<rparr>)"
proof -
  have cf: "carol\<lparr>is_confirmed := False, is_blocked := True\<rparr> = carol" by (simp add: carol_def)
  have q: "query_user_by_email sample_world (str_lower sample_env ''carol@example.com'') =
      Some (carol\<lparr>is_confirmed := False, is_blocked := True\<rparr>)"
    by (simp add: sample_lower sample_query cf)
  have rd: "\<not> (needs_rollback sample_world \<and> object_session sample_world carol)"
    by (simp add: sample_session)
  have cp: "fst (check_password sample_env (carol\<lparr>is_confirmed := False, is_blocked := True\<rparr>)
      (Some ''correct-horse'') sample_world) = Inr True"
    using check_password_rehash_accepted(1) [OF sample_hash(3) sample_hasher(5) sample_validate(2) rd]
    by (simp add: cf)
  have wr: "db_writable sample_world" by (simp add: sample_world_def)
  have di: "distinct (map token_value (refresh_tokens sample_world))" by (simp add: sample_world_def)
  have fr: "snd (create_token_pair sample_env (0, 0) (user_id carol))
           \<notin> set (map token_value (refresh_tokens sample_world))"
    by (simp add: sample_world_def)
  have uid: "user_id carol = UUID ''c3''" by (simp add: carol_def)
  have tk: "create_token_pair sample_env (0, 0) (UUID ''c3'') = (''c3.short'', ''c3.long'')"
    by (simp add: create_token_pair_def sample_tokens)
  have fl: "is_blocked carol" "\<not> is_confirmed carol" by (simp_all add: carol_def)
  have va: "\<forall>p x. validate_password sample_env p (reflag (\<lambda>i. (False, True)) x) =
      validate_password sample_env p x"
    by (simp add: sample_env_def)
  have al: "fst (authenticate sample_env (0, 0) sample_world
      (creds ''Alice@Example.com'' ''secret-password'')) = Inr (''a1.short'', ''a1.long'', alice)"
    using authenticate_twice_same_clock by simp
  have one: "\<exists>u1 w1. authenticate sample_env (0, 0) sample_world
        (creds ''carol@example.com'' ''correct-horse'') = (Inr (''c3.short'', ''c3.long'', u1), w1) \<and>
      user_id u1 = UUID ''c3'' \<and> \<not> is_confirmed u1 \<and> is_blocked u1"
    using C10_flags_not_consulted [where env = sample_env and w = sample_world and u = carol
        and c = False and b = True and clock = "(0, 0)" and em = "''carol@example.com''"
        and pw = "''correct-horse''" and credentials = "creds ''carol@example.com'' ''correct-horse''"]
      sample_dpath(1) sample_dpath(2) q cp wr di fr
    by (simp add: uid tk)
  have two: "fst (authenticate sample_env (0, 0) (reflag_world (\<lambda>i. (False, True)) sample_world)
          (creds ''Alice@Example.com'' ''secret-password'')) =
     Inr (''a1.short'', ''a1.long'', alice\<lparr>is_confirmed := False, is_blocked := True\<rparr>)"
    using C10_flags_not_consulted [where env = sample_env and w = sample_world
        and f = "\<lambda>i. (False, True)" and clock = "(0, 0)"
        and credentials = "creds ''Alice@Example.com'' ''secret-password''"] va al
    by (auto simp add: reflag_def split: prod.splits sum.splits)
  show ?thesis using fl one two by simp
qed

theorem C10_counterexample:
  "eve \<in> set (users sample_world) \<and> email eve = Some ''Eve@Example.com'' \<and>
   is_blocked eve \<and> \<not> is_confirmed eve \<and>
   password_hash eve = Some ''new$open-sesame'' \<and>
   hasher_check sample_env ''open-sesame'' ''new$open-sesame'' = Inr (True, False) \<and>
   authenticate sample_env (0, 0) sample_world (creds ''Eve@Example.com'' ''open-sesame'') =
     (Inl (AuthCredentialsInvalid (Some ''User password or email is not valid'')), sample_world) \<and>
   fst (authenticate sample_env (0, 0) (reflag_world (\<lambda>i. (True, False)) sample_world)
          (creds ''Eve@Example.com'' ''open-sesame'')) =
     Inl (AuthCredentialsInvalid (Some ''User password or email is not valid''))"
proof -
  have q: "query_user_by_email sample_world (str_lower sample_env ''Eve@Example.com'') = None"
    by (simp add: sample_lower sample_query)
  have q2: "query_user_by_email (reflag_world (\<lambda>i. (True, False)) sample_world)
      (str_lower sample_env ''Eve@Example.com'') = None"
    by (simp add: query_reflag q)
  have nr: "\<not> needs_rollback (reflag_world (\<lambda>i. (True, False)) sample_world)"
    by (simp add: reflag_world_simps sample_session)
  have "eve \<in> set (users sample_world)" by (simp add: sample_world_def)
  moreover have "email eve = Some ''Eve@Example.com''" "is_blocked eve" "\<not> is_confirmed eve"
    by (simp_all add: eve_def)
  ultimately show ?thesis
    using authenticate_not_found [OF sample_dpath(1) sample_dpath(2) sample_session(1) q, of "(0, 0)"]
      authenticate_not_found [OF sample_dpath(1) sample_dpath(2) nr q2, of "(0, 0)"]
      sample_hasher(6) sample_hash(6)
    by (simp add: invalid_message_def)
qed

section \<open>Token verification\<close>

lemma payload_of_token:
  "\<exists>token r1. app_user_token r = (Inr token, r1) \<and>
     fst (get_user_token_payload env r) =
       (case decode_user_token env token of Inl e \<Rightarrow> Inl e | Inr p \<Rightarrow> Inr (ObjPayload p))"
  by (auto simp add: get_user_token_payload_def app_user_token_def descr_get_def
      get_user_token_from_headers_def split: option.splits sum.splits)

text \<open>
  C5 (as the code has it). \<open>_get_user_token_payload\<close> decodes the token of the
  request. It fails with \<open>AuthCredentialsExpired\<close> when \<open>jwt.decode\<close> raises
  \<open>ExpiredSignatureError\<close>, and with \<open>AuthCredentialsInvalid\<close> when it raises
  \<open>DecodeError\<close>, \<open>InvalidSignatureError\<close> or \<open>InvalidAlgorithmError\<close>. An
  exception of any other class is not handled and goes on to the caller as it is; every
  failure is of one of these three kinds.
\<close>

theorem C5_verification_failure_kinds:
  "(jwt_decode env token (APP_JWT_SECRET_KEY env) [''HS256''] = Inl ExpiredSignatureError \<longrightarrow>
      decode_user_token env token = Inl AuthCredentialsExpired) \<and>
   (jwt_decode env token (APP_JWT_SECRET_KEY env) [''HS256''] = Inl ex \<and>
    (ex = DecodeError \<or> ex = InvalidSignatureError \<or> ex = InvalidAlgorithmError) \<longrightarrow>
      decode_user_token env token = Inl (AuthCredentialsInvalid None)) \<and>
   (jwt_decode env token (APP_JWT_SECRET_KEY env) [''HS256''] = Inr p \<longrightarrow>
      decode_user_token env token = Inr p) \<and>
   (decode_user_token env token = Inl e \<longrightarrow>
      e = AuthCredentialsExpired \<or> e = AuthCredentialsInvalid None \<or>
      (\<exists>x. e = JwtError x \<and>
           jwt_decode env token (APP_JWT_SECRET_KEY env) [''HS256''] = Inl x \<and>
           x \<noteq> ExpiredSignatureError \<and> x \<noteq> DecodeError \<and>
           x \<noteq> InvalidSignatureError \<and> x \<noteq> InvalidAlgorithmError)) \<and>
   (\<exists>tok r1. app_user_token r = (Inr tok, r1) \<and>
      fst (get_user_token_payload env r) =
        (case decode_user_token env tok of Inl e \<Rightarrow> Inl e | Inr p \<Rightarrow> Inr (ObjPayload p)))"
  using payload_of_token [of r env]
  by (auto simp add: decode_user_token_def APP_JWT_ALGORITHM_def split: sum.splits if_splits)

theorem C5_witness:
  "jwt_decode sample_env (ObjVal (PyStr ''expired'')) (APP_JWT_SECRET_KEY sample_env) [''HS256''] =
     Inl ExpiredSignatureError \<and>
   decode_user_token sample_env (ObjVal (PyStr ''expired'')) = Inl AuthCredentialsExpired \<and>
   jwt_decode sample_env (ObjVal (PyStr ''garbage'')) (APP_JWT_SECRET_KEY sample_env) [''HS256''] =
     Inl DecodeError \<and>
   decode_user_token sample_env (ObjVal (PyStr ''garbage'')) = Inl (AuthCredentialsInvalid None) \<and>
   decode_user_token sample_env (ObjVal (PyStr ''a1.short'')) =
     Inr [(''user_id'', PyStr ''a1''), (''exp'', PyInt 259200)]"
  using C5_verification_failure_kinds [of sample_env "ObjVal (PyStr ''expired'')"]
    C5_verification_failure_kinds [of sample_env "ObjVal (PyStr ''garbage'')" DecodeError]
    C5_verification_failure_kinds [of sample_env "ObjVal (PyStr ''a1.short'')" _
      "[(''user_id'', PyStr ''a1''), (''exp'', PyInt 259200)]"]
    sample_decode
  by simp

theorem C5_counterexample:
  "jwt_decode sample_env (ObjVal (PyStr ''early'')) (APP_JWT_SECRET_KEY sample_env) [''HS256''] =
     Inl ImmatureSignatureError \<and>
   fst (app_user_token (token_request ''early'')) = Inr (ObjVal (PyStr ''early'')) \<and>
   fst (get_user_token_payload sample_env (token_request ''early'')) =
     Inl (JwtError ImmatureSignatureError) \<and>
   fst (get_user_token_payload sample_env (token_request ''early'')) \<noteq> Inl AuthCredentialsExpired \<and>
   fst (get_user_token_payload sample_env (token_request ''early'')) \<noteq>
     Inl (AuthCredentialsInvalid None)"
  by (simp add: get_user_token_payload_def sample_token_read decode_user_token_def sample_decode)

section \<open>The lazy attributes of a request\<close>

lemmas count_defs = decode_calls_def query_calls_def decode_successes_def query_successes_def
  failed_calls_def

lemma stage1:
  assumes "app_user_token r = (res, r1)"
  shows "library_calls r1 = library_calls r" and "\<not> isl res"
    and "attrs r1 ''_app_user_token_payload'' = attrs r ''_app_user_token_payload''"
    and "attrs r1 ''_app_user_id'' = attrs r ''_app_user_id''"
    and "attrs r1 ''_app_user'' = attrs r ''_app_user''"
    and "lamb_db_session r1 = lamb_db_session r"
  using assms
  by (auto simp add: app_user_token_def descr_get_def get_user_token_from_headers_def
      split: option.splits)

lemma stage2:
  assumes "app_user_token_payload env r = (res, r1)"
  shows "decode_cached r \<Longrightarrow> decode_cached r1"
    and "query_successes r1 = query_successes r"
    and "attrs r1 ''_app_user'' = attrs r ''_app_user''"
    and "\<not> isl res \<Longrightarrow> failed_calls r1 = failed_calls r"
    and "lamb_db_session r1 = lamb_db_session r"
proof -
  obtain res0 r0 where s: "app_user_token r = (res0, r0)" by (cases "app_user_token r") auto
  note f = stage1 [OF s]
  show "decode_cached r \<Longrightarrow> decode_cached r1"
    using assms s f
    by (auto simp add: app_user_token_payload_def descr_get_def get_user_token_payload_def
        decode_cached_def count_defs split: option.splits sum.splits)
  show "query_successes r1 = query_successes r"
    using assms s f
    by (auto simp add: app_user_token_payload_def descr_get_def get_user_token_payload_def
        count_defs split: option.splits sum.splits)
  show "attrs r1 ''_app_user'' = attrs r ''_app_user''"
    using assms s f
    by (auto simp add: app_user_token_payload_def descr_get_def get_user_token_payload_def
        split: option.splits sum.splits)
  show "\<not> isl res \<Longrightarrow> failed_calls r1 = failed_calls r"
    using assms s f
    by (auto simp add: app_user_token_payload_def descr_get_def get_user_token_payload_def
        count_defs split: option.splits sum.splits)
  show "lamb_db_session r1 = lamb_db_session r"
    using assms s f
    by (auto simp add: app_user_token_payload_def descr_get_def get_user_token_payload_def
        split: option.splits sum.splits)
qed

lemma stage3:
  assumes "app_user_id env r = (res, r1)"
  shows "decode_cached r \<Longrightarrow> decode_cached r1"
    and "query_successes r1 = query_successes r"
    and "attrs r1 ''_app_user'' = attrs r ''_app_user''"
    and "\<not> isl res \<Longrightarrow> failed_calls r1 = failed_calls r"
    and "lamb_db_session r1 = lamb_db_session r"
proof -
  obtain res0 r0 where s: "app_user_token_payload env r = (res0, r0)"
    by (cases "app_user_token_payload env r") auto
  note f = stage2 [OF s]
  show "decode_cached r \<Longrightarrow> decode_cached r1"
    using assms s f(1)
    by (auto simp add: app_user_id_def descr_get_def get_user_id_def decode_cached_def
        count_defs split: option.splits sum.splits pyobj.splits)
  show "query_successes r1 = query_successes r"
    using assms s f(2)
    by (auto simp add: app_user_id_def descr_get_def get_user_id_def count_defs
        split: option.splits sum.splits pyobj.splits)
  show "attrs r1 ''_app_user'' = attrs r ''_app_user''"
    using assms s f(3)
    by (auto simp add: app_user_id_def descr_get_def get_user_id_def
        split: option.splits sum.splits pyobj.splits)
  show "\<not> isl res \<Longrightarrow> failed_calls r1 = failed_calls r"
    using assms s f(4)
    by (auto simp add: app_user_id_def descr_get_def get_user_id_def count_defs
        split: option.splits sum.splits pyobj.splits)
  show "lamb_db_session r1 = lamb_db_session r"
    using assms s f(5)
    by (auto simp add: app_user_id_def descr_get_def get_user_id_def
        split: option.splits sum.splits pyobj.splits)
qed

lemma stage4:
  assumes "app_user env r = (res, r1)"
  shows "decode_cached r \<Longrightarrow> decode_cached r1"
    and "query_cached r \<Longrightarrow> query_cached r1"
    and "\<not> isl res \<Longrightarrow> failed_calls r1 = failed_calls r"
proof -
  obtain res0 r0 where s: "app_user_id env r = (res0, r0)"
    by (cases "app_user_id env r") auto
  note f = stage3 [OF s]
  show "decode_cached r \<Longrightarrow> decode_cached r1"
    using assms s f(1)
    by (auto simp add: app_user_def descr_get_def get_user_def decode_cached_def
        count_defs split: option.splits sum.splits)
  show "query_cached r \<Longrightarrow> query_cached r1"
    using assms s f(2,3)
    by (auto simp add: app_user_def descr_get_def get_user_def query_cached_def
        count_defs split: option.splits sum.splits)
  show "\<not> isl res \<Longrightarrow> failed_calls r1 = failed_calls r"
    using assms s f(4)
    by (auto simp add: app_user_def descr_get_def get_user_def count_defs
        split: option.splits sum.splits)
qed

lemma getattr_inv:
  assumes "request_getattr env name r = (res, r1)"
  shows "decode_cached r \<Longrightarrow> decode_cached r1"
    and "query_cached r \<Longrightarrow> query_cached r1"
    and "\<not> isl res \<Longrightarrow> failed_calls r1 = failed_calls r"
    and "\<not> reads_identity (GetAttr name) \<Longrightarrow> library_calls r1 = library_calls r"
proof -
  consider (t) "name = ''app_user_token''" | (p) "name = ''app_user_token_payload''"
    | (i) "name = ''app_user_id''" | (u) "name = ''app_user''"
    | (o) "name \<noteq> ''app_user_token''" "name \<noteq> ''app_user_token_payload''"
          "name \<noteq> ''app_user_id''" "name \<noteq> ''app_user''"
    by blast
  then have "(decode_cached r \<longrightarrow> decode_cached r1) \<and> (query_cached r \<longrightarrow> query_cached r1) \<and>
    (\<not> isl res \<longrightarrow> failed_calls r1 = failed_calls r) \<and>
    (\<not> reads_identity (GetAttr name) \<longrightarrow> library_calls r1 = library_calls r)"
  proof cases
    case t
    then have s: "app_user_token r = (res, r1)" using assms by (simp add: request_getattr_def)
    show ?thesis using stage1 [OF s] by (simp add: decode_cached_def query_cached_def count_defs)
  next
    case p
    then have s: "app_user_token_payload env r = (res, r1)"
      using assms by (simp add: request_getattr_def)
    show ?thesis using stage2 [OF s] p by (simp add: query_cached_def)
  next
    case i
    then have s: "app_user_id env r = (res, r1)" using assms by (simp add: request_getattr_def)
    show ?thesis using stage3 [OF s] i by (simp add: query_cached_def)
  next
    case u
    then have s: "app_user env r = (res, r1)" using assms by (simp add: request_getattr_def)
    show ?thesis using stage4 [OF s] u by simp
  next
    case o
    then show ?thesis using assms by (auto simp add: request_getattr_def split: option.splits)
  qed
  then show "decode_cached r \<Longrightarrow> decode_cached r1"
    and "query_cached r \<Longrightarrow> query_cached r1"
    and "\<not> isl res \<Longrightarrow> failed_calls r1 = failed_calls r"
    and "\<not> reads_identity (GetAttr name) \<Longrightarrow> library_calls r1 = library_calls r"
    by simp_all
qed

lemma setattr_inv:
  shows "library_calls (request_setattr name v r) = library_calls r"
    and "decode_cached r \<Longrightarrow> decode_cached (request_setattr name v r)"
    and "query_cached r \<Longrightarrow> query_cached (request_setattr name v r)"
    and "failed_calls (request_setattr name v r) = failed_calls r"
  by (auto simp add: request_setattr_def descr_set_def decode_cached_def query_cached_def count_defs)

lemma run_inv:
  assumes "run_accesses env accs r = (rs, r1)" and "decode_cached r" and "query_cached r"
  shows "decode_cached r1 \<and> query_cached r1"
  using assms
proof (induction accs arbitrary: r rs)
  case Nil
  then show ?case by simp
next
  case (Cons a accs)
  show ?case
  proof (cases a)
    case (GetAttr name)
    obtain res r0 where g: "request_getattr env name r = (res, r0)"
      by (cases "request_getattr env name r") auto
    obtain rs0 where t: "run_accesses env accs r0 = (rs0, r1)"
      using Cons.prems(1) GetAttr g by (auto split: prod.splits)
    show ?thesis
      using Cons.IH [OF t] getattr_inv(1,2) [OF g] Cons.prems(2,3) by simp
  next
    case (SetAttr name v)
    then have t: "run_accesses env accs (request_setattr name v r) = (rs, r1)"
      using Cons.prems(1) by simp
    show ?thesis
      using Cons.IH [OF t] setattr_inv(2,3) Cons.prems(2,3) by simp
  qed
qed

lemma run_no_failure:
  assumes "run_accesses env accs r = (rs, r1)" and "\<forall>x \<in> set rs. \<not> isl x"
  shows "failed_calls r1 = failed_calls r"
  using assms
proof (induction accs arbitrary: r rs)
  case Nil
  then show ?case by simp
next
  case (Cons a accs)
  show ?case
  proof (cases a)
    case (GetAttr name)
    obtain res r0 where g: "request_getattr env name r = (res, r0)"
      by (cases "request_getattr env name r") auto
    obtain rs0 where t: "run_accesses env accs r0 = (rs0, r1)" and rs: "rs = res # rs0"
      using Cons.prems(1) GetAttr g by (auto split: prod.splits)
    have "failed_calls r1 = failed_calls r0" using Cons.IH [OF t] Cons.prems(2) rs by simp
    moreover have "failed_calls r0 = failed_calls r"
      using getattr_inv(3) [OF g] Cons.prems(2) rs by simp
    ultimately show ?thesis by simp
  next
    case (SetAttr name v)
    then have t: "run_accesses env accs (request_setattr name v r) = (rs, r1)"
      using Cons.prems(1) by simp
    show ?thesis using Cons.IH [OF t Cons.prems(2)] setattr_inv(4) by simp
  qed
qed

lemma run_no_identity_read:
  assumes "run_accesses env accs r = (rs, r1)" and "\<forall>a \<in> set accs. \<not> reads_identity a"
  shows "library_calls r1 = library_calls r"
  using assms
proof (induction accs arbitrary: r rs)
  case Nil
  then show ?case by simp
next
  case (Cons a accs)
  show ?case
  proof (cases a)
    case (GetAttr name)
    obtain res r0 where g: "request_getattr env name r = (res, r0)"
      by (cases "request_getattr env name r") auto
    obtain rs0 where t: "run_accesses env accs r0 = (rs0, r1)"
      using Cons.prems(1) GetAttr g by (auto split: prod.splits)
    have "library_calls r1 = library_calls r0" using Cons.IH [OF t] Cons.prems(2) by simp
    moreover have "library_calls r0 = library_calls r"
      using getattr_inv(4) [OF g] Cons.prems(2) GetAttr by simp
    ultimately show ?thesis by simp
  next
    case (SetAttr name v)
    then have t: "run_accesses env accs (request_setattr name v r) = (rs, r1)"
      using Cons.prems(1) by simp
    show ?thesis using Cons.IH [OF t] Cons.prems(2) setattr_inv(1) by simp
  qed
qed

lemma calls_by_outcome:
  "decode_calls r \<le> decode_successes r + failed_calls r"
  "query_calls r \<le> query_successes r + failed_calls r"
proof -
  have "length (filter (\<lambda>c. case c of JwtDecodeCall t ok \<Rightarrow> True | _ \<Rightarrow> False) cs) \<le>
        length (filter (\<lambda>c. case c of JwtDecodeCall t ok \<Rightarrow> ok | _ \<Rightarrow> False) cs) +
        length (filter (\<lambda>c. case c of JwtDecodeCall t ok \<Rightarrow> \<not> ok
                                     | UserQueryCall u ok \<Rightarrow> \<not> ok) cs)" for cs
    by (induction cs) (auto split: library_call.splits)
  then show "decode_calls r \<le> decode_successes r + failed_calls r"
    by (simp add: count_defs)
  have "length (filter (\<lambda>c. case c of UserQueryCall u ok \<Rightarrow> True | _ \<Rightarrow> False) cs) \<le>
        length (filter (\<lambda>c. case c of UserQueryCall u ok \<Rightarrow> ok | _ \<Rightarrow> False) cs) +
        length (filter (\<lambda>c. case c of JwtDecodeCall t ok \<Rightarrow> \<not> ok
                                     | UserQueryCall u ok \<Rightarrow> \<not> ok) cs)" for cs
    by (induction cs) (auto split: library_call.splits)
  then show "query_calls r \<le> query_successes r + failed_calls r"
    by (simp add: count_defs)
qed

lemma descr_get_cached:
  "attrs r private_name = Some v \<Longrightarrow> descr_get private_name factory r = (Inr v, r)"
  by (simp add: descr_get_def)

lemma descr_get_again:
  "descr_get private_name factory r = (Inr v, r1) \<Longrightarrow>
     descr_get private_name factory r1 = (Inr v, r1)"
  by (auto simp add: descr_get_def split: option.splits sum.splits prod.splits)

lemma descr_get_set:
  "descr_get private_name factory (descr_set private_name r v) =
     (Inr v, descr_set private_name r v)"
  by (simp add: descr_get_def descr_set_def)

lemma getattr_is_descriptor:
  assumes "name \<in> set identity_attrs"
  shows "\<exists>factory. request_getattr env name = descr_get (CHR ''_'' # name) factory \<and>
           (\<forall>v r. request_setattr name v r = descr_set (CHR ''_'' # name) r v)"
proof -
  from assms consider "name = ''app_user_token''" | "name = ''app_user_token_payload''"
    | "name = ''app_user_id''" | "name = ''app_user''"
    by (auto simp add: identity_attrs_def)
  then show ?thesis
  proof cases
    case 1
    then show ?thesis
      by (intro exI [of _ get_user_token_from_headers])
         (auto simp add: request_getattr_def request_setattr_def app_user_token_def fun_eq_iff)
  next
    case 2
    then show ?thesis
      by (intro exI [of _ "get_user_token_payload env"])
         (auto simp add: request_getattr_def request_setattr_def app_user_token_payload_def fun_eq_iff)
  next
    case 3
    then show ?thesis
      by (intro exI [of _ "get_user_id env"])
         (auto simp add: request_getattr_def request_setattr_def app_user_id_def fun_eq_iff)
  next
    case 4
    then show ?thesis
      by (intro exI [of _ "get_user env"])
         (auto simp add: request_getattr_def request_setattr_def app_user_def fun_eq_iff)
  qed
qed

lemma new_request_inv:
  "decode_cached (new_request meta w)" "query_cached (new_request meta w)"
  "failed_calls (new_request meta w) = 0" "library_calls (new_request meta w) = []"
  by (simp_all add: new_request_def decode_cached_def query_cached_def count_defs)

text \<open>
  A read that fails stores nothing under the private name of its stage, so the next
  read of the stage calls the factory again.
\<close>

lemma descr_get_failed:
  "descr_get private_name factory r = (Inl e, r1) \<Longrightarrow>
     attrs r private_name = None \<and> factory r = (Inl e, r1)"
  by (auto simp add: descr_get_def split: option.splits sum.splits prod.splits)

lemma descr_get_attrs:
  assumes "\<And>res r0. factory r = (res, r0) \<Longrightarrow> attrs r0 n = attrs r n"
    and "n \<noteq> private_name"
  shows "attrs (snd (descr_get private_name factory r)) n = attrs r n"
proof (cases "attrs r private_name")
  case None
  obtain res r0 where f: "factory r = (res, r0)" by (cases "factory r") auto
  show ?thesis using None f assms(1) [OF f] assms(2)
    by (cases res) (simp_all add: descr_get_def)
next
  case (Some v)
  then show ?thesis by (simp add: descr_get_def)
qed

lemma token_attrs:
  "n \<noteq> ''_app_user_token'' \<Longrightarrow> attrs (snd (app_user_token r)) n = attrs r n"
  unfolding app_user_token_def
  by (rule descr_get_attrs)
     (auto simp add: get_user_token_from_headers_def split: option.splits)

lemma get_payload_attrs:
  assumes "n \<noteq> ''_app_user_token''"
  shows "attrs (snd (get_user_token_payload env r)) n = attrs r n"
proof -
  obtain res r0 where t: "app_user_token r = (res, r0)" by (cases "app_user_token r") auto
  have a: "attrs r0 n = attrs r n" using token_attrs [OF assms, of r] t by simp
  show ?thesis
  proof (cases res)
    case (Inl e)
    then show ?thesis using t a by (simp add: get_user_token_payload_def)
  next
    case (Inr tok)
    then show ?thesis using t a
      by (cases "decode_user_token env tok") (simp_all add: get_user_token_payload_def)
  qed
qed

lemma payload_attrs:
  assumes "n \<noteq> ''_app_user_token''" and "n \<noteq> ''_app_user_token_payload''"
  shows "attrs (snd (app_user_token_payload env r)) n = attrs r n"
  unfolding app_user_token_payload_def
proof (rule descr_get_attrs)
  fix res r0 assume "get_user_token_payload env r = (res, r0)"
  then show "attrs r0 n = attrs r n" using get_payload_attrs [OF assms(1), of env r] by simp
qed (rule assms(2))

lemma get_user_id_state:
  "snd (get_user_id env r) = snd (app_user_token_payload env r)"
proof -
  obtain res r0 where t: "app_user_token_payload env r = (res, r0)"
    by (cases "app_user_token_payload env r") auto
  show ?thesis
  proof (cases res)
    case (Inl e)
    then show ?thesis using t by (simp add: get_user_id_def)
  next
    case (Inr v)
    then show ?thesis using t
      by (cases v) (simp_all add: get_user_id_def split: sum.splits)
  qed
qed

lemma user_id_attrs:
  assumes "n \<noteq> ''_app_user_token''" and "n \<noteq> ''_app_user_token_payload''"
    and "n \<noteq> ''_app_user_id''"
  shows "attrs (snd (app_user_id env r)) n = attrs r n"
  unfolding app_user_id_def
proof (rule descr_get_attrs)
  fix res r0 assume "get_user_id env r = (res, r0)"
  then have "r0 = snd (app_user_token_payload env r)"
    using get_user_id_state [of env r] by simp
  then show "attrs r0 n = attrs r n" using payload_attrs [OF assms(1,2), of env r] by simp
qed (rule assms(3))

lemma get_user_attrs:
  assumes "n \<noteq> ''_app_user_token''" and "n \<noteq> ''_app_user_token_payload''"
    and "n \<noteq> ''_app_user_id''"
  shows "attrs (snd (get_user env r)) n = attrs r n"
proof -
  obtain res r0 where t: "app_user_id env r = (res, r0)" by (cases "app_user_id env r") auto
  have a: "attrs r0 n = attrs r n" using user_id_attrs [OF assms, of env r] t by simp
  show ?thesis
  proof (cases res)
    case (Inl e)
    then show ?thesis using t a by (simp add: get_user_def)
  next
    case (Inr v)
    then show ?thesis using t a
      by (simp add: get_user_def split: sum.splits option.splits)
  qed
qed

lemma getattr_failed_caches_nothing:
  assumes "name \<in> set identity_attrs" and "request_getattr env name r = (Inl e, r1)"
  shows "attrs r1 (CHR ''_'' # name) = None"
proof -
  from assms(1) consider "name = ''app_user_token''" | "name = ''app_user_token_payload''"
    | "name = ''app_user_id''" | "name = ''app_user''"
    by (auto simp add: identity_attrs_def)
  then show ?thesis
  proof cases
    case 1
    then show ?thesis using assms(2)
      by (auto simp add: request_getattr_def app_user_token_def descr_get_def
          get_user_token_from_headers_def split: option.splits)
  next
    case 2
    with assms(2) have n: "attrs r ''_app_user_token_payload'' = None"
      and f: "get_user_token_payload env r = (Inl e, r1)"
      using descr_get_failed [of "''_app_user_token_payload''" "get_user_token_payload env" r e r1]
      by (simp_all add: request_getattr_def app_user_token_payload_def)
    show ?thesis
      using get_payload_attrs [of "''_app_user_token_payload''" env r] f n 2 by simp
  next
    case 3
    with assms(2) have n: "attrs r ''_app_user_id'' = None"
      and f: "get_user_id env r = (Inl e, r1)"
      using descr_get_failed [of "''_app_user_id''" "get_user_id env" r e r1]
      by (simp_all add: request_getattr_def app_user_id_def)
    have "r1 = snd (app_user_token_payload env r)" using get_user_id_state [of env r] f by simp
    then show ?thesis
      using payload_attrs [of "''_app_user_id''" env r] n 3 by simp
  next
    case 4
    with assms(2) have n: "attrs r ''_app_user'' = None"
      and f: "get_user env r = (Inl e, r1)"
      using descr_get_failed [of "''_app_user''" "get_user env" r e r1]
      by (simp_all add: request_getattr_def app_user_def)
    show ?thesis
      using get_user_attrs [of "''_app_user''" env r] f n 4 by simp
  qed
qed

text \<open>
  C6 (as the code has it). For each of the four lazy attributes: a read of a cached
  attribute returns the cached value and changes nothing; after a successful read a
  second read returns the identical value and changes nothing; after an explicit write a
  read returns the written value and changes nothing. Over any sequence of reads and
  writes on a new request, whether or not failed reads are handled and followed by more
  accesses, at most one decode and at most one user query succeed; when no read fails
  there is at most one decode and one user query at all; and when no access reads the
  payload, the user id or the user, no decode and no query is made.
\<close>

theorem C6_lazy_stages_cached_on_success:
  "(name \<in> set identity_attrs \<longrightarrow>
      (attrs r (CHR ''_'' # name) = Some v \<longrightarrow> request_getattr env name r = (Inr v, r)) \<and>
      (request_getattr env name r = (Inr v, r1) \<longrightarrow> request_getattr env name r1 = (Inr v, r1)) \<and>
      request_getattr env name (request_setattr name v r) = (Inr v, request_setattr name v r)) \<and>
   (run_accesses env accs (new_request meta w) = (results, r2) \<longrightarrow>
      decode_successes r2 \<le> 1 \<and> query_successes r2 \<le> 1 \<and>
      ((\<forall>x \<in> set results. \<not> isl x) \<longrightarrow> decode_calls r2 \<le> 1 \<and> query_calls r2 \<le> 1) \<and>
      ((\<forall>a \<in> set accs. \<not> reads_identity a) \<longrightarrow> library_calls r2 = []))"
proof (intro conjI impI)
  assume n: "name \<in> set identity_attrs"
  from getattr_is_descriptor [OF n, of env]
  obtain factory where g: "request_getattr env name = descr_get (CHR ''_'' # name) factory"
    and s: "\<And>v r. request_setattr name v r = descr_set (CHR ''_'' # name) r v"
    by blast
  show "request_getattr env name r = (Inr v, r)" if "attrs r (CHR ''_'' # name) = Some v"
    using that by (simp add: g descr_get_cached)
  show "request_getattr env name r1 = (Inr v, r1)" if "request_getattr env name r = (Inr v, r1)"
    using that by (simp add: g descr_get_again)
  show "request_getattr env name (request_setattr name v r) = (Inr v, request_setattr name v r)"
    by (simp add: g s descr_get_set)
next
  assume run: "run_accesses env accs (new_request meta w) = (results, r2)"
  have inv: "decode_cached r2 \<and> query_cached r2"
    using run_inv [OF run new_request_inv(1,2)] .
  show d: "decode_successes r2 \<le> 1" using inv by (auto simp add: decode_cached_def)
  show q: "query_successes r2 \<le> 1" using inv by (auto simp add: query_cached_def)
  {
    assume ok: "\<forall>x \<in> set results. \<not> isl x"
    have f: "failed_calls r2 = 0" using run_no_failure [OF run ok] new_request_inv(3) by simp
    show "decode_calls r2 \<le> 1" using calls_by_outcome(1) [of r2] f d by simp
    show "query_calls r2 \<le> 1" using calls_by_outcome(2) [of r2] f q by simp
  }
  {
    assume no: "\<forall>a \<in> set accs. \<not> reads_identity a"
    show "library_calls r2 = []" using run_no_identity_read [OF run no] new_request_inv(4) by simp
  }
qed

lemma sample_failed_read:
  assumes "attrs r ''_app_user_id'' = None" "attrs r ''_app_user_token_payload'' = None"
    "attrs r ''_app_user_token'' = Some (ObjVal (PyStr ''garbage''))"
  shows "filter_app_user_id sample_env r =
           (ObjVal PyNone,
            r\<lparr>library_calls := library_calls r @ [JwtDecodeCall (ObjVal (PyStr ''garbage'')) False]\<rparr>)"
  using assms
  by (simp add: filter_app_user_id_def app_user_id_def get_user_id_def app_user_token_payload_def
      get_user_token_payload_def app_user_token_def descr_get_def decode_user_token_def
      sample_decode)

lemma sample_run:
  "fst (run_accesses sample_env [GetAttr ''app_user'', GetAttr ''app_user_id'', GetAttr ''app_user'']
          (token_request ''a1.short'')) =
     [Inr (ObjUser alice), Inr (ObjUUID (UUID ''a1'')), Inr (ObjUser alice)]"
  by (simp add: request_getattr_def app_user_def get_user_def app_user_id_def get_user_id_def
      app_user_token_payload_def get_user_token_payload_def app_user_token_def descr_get_def
      get_user_token_from_headers_def decode_user_token_def query_user_by_id_def
      session_first_def token_request_def new_request_def sample_env_def sample_world_def
      alice_def bob_def carol_def dora_def split: prod.splits)

lemma sample_first_read:
  "fst (request_getattr sample_env ''app_user'' (token_request ''a1.short'')) = Inr (ObjUser alice)"
  by (simp add: request_getattr_def app_user_def get_user_def app_user_id_def get_user_id_def
      app_user_token_payload_def get_user_token_payload_def app_user_token_def descr_get_def
      get_user_token_from_headers_def decode_user_token_def query_user_by_id_def
      session_first_def token_request_def new_request_def sample_env_def sample_world_def
      alice_def bob_def carol_def dora_def split: prod.splits)

theorem C6_witness:
  "''app_user'' \<in> set identity_attrs \<and>
   attrs (request_setattr ''app_user'' (ObjUser alice) (token_request ''a1.short'')) ''_app_user'' =
     Some (ObjUser alice) \<and>
   request_getattr sample_env ''app_user''
       (request_setattr ''app_user'' (ObjUser alice) (token_request ''a1.short'')) =
     (Inr (ObjUser alice), request_setattr ''app_user'' (ObjUser alice) (token_request ''a1.short'')) \<and>
   library_calls (request_setattr ''app_user'' (ObjUser alice) (token_request ''a1.short'')) = [] \<and>
   fst (request_getattr sample_env ''app_user'' (token_request ''a1.short'')) = Inr (ObjUser alice) \<and>
   request_getattr sample_env ''app_user''
       (snd (request_getattr sample_env ''app_user'' (token_request ''a1.short''))) =
     (Inr (ObjUser alice), snd (request_getattr sample_env ''app_user'' (token_request ''a1.short''))) \<and>
   fst (run_accesses sample_env [GetAttr ''app_user'', GetAttr ''app_user_id'', GetAttr ''app_user'']
          (token_request ''a1.short'')) =
     [Inr (ObjUser alice), Inr (ObjUUID (UUID ''a1'')), Inr (ObjUser alice)] \<and>
   decode_calls (snd (run_accesses sample_env
      [GetAttr ''app_user'', GetAttr ''app_user_id'', GetAttr ''app_user'']
      (token_request ''a1.short''))) \<le> 1 \<and>
   query_calls (snd (run_accesses sample_env
      [GetAttr ''app_user'', GetAttr ''app_user_id'', GetAttr ''app_user'']
      (token_request ''a1.short''))) \<le> 1 \<and>
   library_calls (snd (run_accesses sample_env
      [GetAttr ''app_user_token'', SetAttr ''app_user'' (ObjUser alice), GetAttr ''app_user_token'']
      (token_request ''a1.short''))) = []"
proof -
  let ?accs = "[GetAttr ''app_user'', GetAttr ''app_user_id'', GetAttr ''app_user'']"
  let ?accs2 = "[GetAttr ''app_user_token'', SetAttr ''app_user'' (ObjUser alice),
                 GetAttr ''app_user_token'']"
  let ?t = "token_request ''a1.short''"
  let ?s = "request_setattr ''app_user'' (ObjUser alice) ?t"
  let ?g = "request_getattr sample_env ''app_user'' ?t"
  let ?run = "run_accesses sample_env ?accs ?t"
  let ?run2 = "run_accesses sample_env ?accs2 ?t"
  have n: "''app_user'' \<in> set identity_attrs" by (simp add: identity_attrs_def)
  have at: "attrs ?s ''_app_user'' = Some (ObjUser alice)"
    by (simp add: request_setattr_def descr_set_def)
  have g: "?g = (Inr (ObjUser alice), snd ?g)"
    using sample_first_read by (simp add: prod_eq_iff)
  have ok: "\<forall>x \<in> set (fst ?run). \<not> isl x" by (simp only: sample_run) simp
  have no: "\<forall>a \<in> set ?accs2. \<not> reads_identity a" by simp
  have l: "library_calls ?s = []"
    by (simp add: setattr_inv(1) token_request_def new_request_def)
  have r1: "run_accesses sample_env ?accs (new_request [(''HTTP_X_LAMB_AUTH_TOKEN'', ''a1.short'')]
      sample_world) = (fst ?run, snd ?run)"
    by (simp add: token_request_def)
  have r2: "run_accesses sample_env ?accs2 (new_request [(''HTTP_X_LAMB_AUTH_TOKEN'', ''a1.short'')]
      sample_world) = (fst ?run2, snd ?run2)"
    by (simp add: token_request_def)
  have a: "request_getattr sample_env ''app_user'' ?s = (Inr (ObjUser alice), ?s)"
    using n at C6_lazy_stages_cached_on_success [where name = "''app_user''" and env = sample_env
        and r = ?s and v = "ObjUser alice"]
    by blast
  have b: "request_getattr sample_env ''app_user'' (snd ?g) = (Inr (ObjUser alice), snd ?g)"
    using n g C6_lazy_stages_cached_on_success [where name = "''app_user''" and env = sample_env
        and r = ?t and v = "ObjUser alice" and ?r1.0 = "snd ?g"]
    by blast
  have c: "decode_calls (snd ?run) \<le> 1 \<and> query_calls (snd ?run) \<le> 1"
    using ok r1 C6_lazy_stages_cached_on_success [where env = sample_env and accs = ?accs
        and meta = "[(''HTTP_X_LAMB_AUTH_TOKEN'', ''a1.short'')]" and w = sample_world
        and results = "fst ?run" and ?r2.0 = "snd ?run"]
    by blast
  have d: "library_calls (snd ?run2) = []"
    using no r2 C6_lazy_stages_cached_on_success [where env = sample_env and accs = ?accs2
        and meta = "[(''HTTP_X_LAMB_AUTH_TOKEN'', ''a1.short'')]" and w = sample_world
        and results = "fst ?run2" and ?r2.0 = "snd ?run2"]
    by blast
  show ?thesis
    using n at a l sample_first_read b sample_run c d by blast
qed

theorem C6_counterexample:
  "decode_calls (token_request ''garbage'') = 0 \<and>
   fst (filter_app_user_id sample_env (token_request ''garbage'')) = ObjVal PyNone \<and>
   decode_calls (snd (filter_app_user_id sample_env (token_request ''garbage''))) = 1 \<and>
   decode_calls (snd (filter_app_user_id sample_env
     (snd (filter_app_user_id sample_env (token_request ''garbage''))))) = 2"
proof -
  let ?r0 = "(token_request ''garbage'')\<lparr>attrs := [''_app_user_token'' \<mapsto> ObjVal (PyStr ''garbage'')]\<rparr>"
  have a: "filter_app_user_id sample_env (token_request ''garbage'') =
      (ObjVal PyNone, ?r0\<lparr>library_calls := [JwtDecodeCall (ObjVal (PyStr ''garbage'')) False]\<rparr>)"
    using sample_token_read [of "''garbage''"]
    by (simp add: filter_app_user_id_def app_user_id_def get_user_id_def app_user_token_payload_def
      get_user_token_payload_def descr_get_def decode_user_token_def
      sample_decode token_request_def new_request_def)
  have b: "filter_app_user_id sample_env
      (?r0\<lparr>library_calls := [JwtDecodeCall (ObjVal (PyStr ''garbage'')) False]\<rparr>) =
      (ObjVal PyNone, ?r0\<lparr>library_calls := [JwtDecodeCall (ObjVal (PyStr ''garbage'')) False,
         JwtDecodeCall (ObjVal (PyStr ''garbage'')) False]\<rparr>)"
    by (subst sample_failed_read) simp_all
  show ?thesis
    by (simp add: a b) (simp add: decode_calls_def token_request_def new_request_def)
qed

end
